theory Spec2Isabelle
  imports Complex_Main "HOL-Library.Sublist"
begin

section \<open>Python strings and exceptions\<close>

text \<open>
  The source tests parameter names with \<^verbatim>\<open>sub in name\<close> and
  \<^verbatim>\<open>k.startswith(p)\<close>. A Python string is a \<^typ>\<open>string\<close>; the two tests are
  the contiguous-sublist and the prefix relation of the list library.
\<close>

definition str_in :: "string \<Rightarrow> string \<Rightarrow> bool" where
  "str_in sub name = sublist sub name"

definition startswith :: "string \<Rightarrow> string \<Rightarrow> bool" where
  "startswith k p = prefix p k"

text \<open>
  The exceptions that the modelled code can raise. \<open>AssertionError\<close> carries the two key
  sets that the source formats into its message.
\<close>

datatype error =
    RuntimeError
  | IndexError
  | ValueError
  | OSError
  | UnboundLocalError
  | AssertionError "string set" "string set"

text \<open>
  A statement that may raise, followed by the statements after it: an exception ends the
  sequence and is the result.
\<close>

definition and_then :: "error + 'a \<Rightarrow> ('a \<Rightarrow> error + 'b) \<Rightarrow> error + 'b" where
  "and_then r f = (case r of Inl e \<Rightarrow> Inl e | Inr v \<Rightarrow> f v)"

section \<open>Tensors and the torch functions that the source calls\<close>

text \<open>
  A tensor is its shape and its elements in row-major order, as a contiguous torch tensor
  stores them. Elements are real numbers: rounding and the non-finite values of IEEE
  arithmetic are outside this development.
\<close>

datatype tensor = Tensor (shape: "nat list") (elems: "real list")

definition numel :: "nat list \<Rightarrow> nat" where
  "numel s = prod_list s"

text \<open>
  The weights that the source multiplies are two-dimensional: \<^verbatim>\<open>torch.zeros(d, r)\<close>,
  \<^verbatim>\<open>torch.randn(r, d)\<close> and the weight of an \<^verbatim>\<open>nn.Linear\<close>. They have a type of their own,
  and \<open>as_tensor\<close> gives the tensor that a state dict holds for one.
\<close>

datatype matrix = Matrix (nrows: nat) (ncols: nat) (entries: "real list")

definition as_tensor :: "matrix \<Rightarrow> tensor" where
  "as_tensor w = Tensor [nrows w, ncols w] (entries w)"

text \<open>
  \<^verbatim>\<open>torch.zeros(n, m)\<close> and \<^verbatim>\<open>torch.randn(n, m)\<close>. A negative size is refused by torch. The
  values that \<^verbatim>\<open>randn\<close> draws are an argument: \<open>noise i\<close> is the \<open>i\<close>-th value of the draw.
\<close>

definition torch_zeros :: "int \<Rightarrow> int \<Rightarrow> error + matrix" where
  "torch_zeros n m =
     (if n < 0 \<or> m < 0 then Inl RuntimeError
      else Inr (Matrix (nat n) (nat m) (replicate (nat n * nat m) 0)))"

definition torch_randn :: "(nat \<Rightarrow> real) \<Rightarrow> int \<Rightarrow> int \<Rightarrow> error + matrix" where
  "torch_randn noise n m =
     (if n < 0 \<or> m < 0 then Inl RuntimeError
      else Inr (Matrix (nat n) (nat m) (map noise [0..<nat n * nat m])))"

text \<open>\<^verbatim>\<open>torch.matmul\<close> of two matrices.\<close>

definition torch_matmul :: "matrix \<Rightarrow> matrix \<Rightarrow> error + matrix" where
  "torch_matmul a b =
     (if ncols a \<noteq> nrows b then Inl RuntimeError
      else Inr (Matrix (nrows a) (ncols b)
        (concat (map (\<lambda>i. map (\<lambda>j.
            sum_list (map (\<lambda>l. entries a ! (i * ncols a + l) * entries b ! (l * ncols b + j))
                          [0..<ncols a]))
          [0..<ncols b]) [0..<nrows a]))))"

text \<open>
  \<^verbatim>\<open>F.linear(x, w, b)\<close>: the last axis of \<open>x\<close> is multiplied with the transpose of \<open>w\<close>, and
  the bias, if one is given, is added to every row of the result.
\<close>

definition F_linear :: "tensor \<Rightarrow> matrix \<Rightarrow> real list option \<Rightarrow> error + tensor" where
  "F_linear x w b =
     (if shape x = [] then Inl RuntimeError
      else if last (shape x) \<noteq> ncols w then Inl RuntimeError
      else if (case b of None \<Rightarrow> False | Some bv \<Rightarrow> length bv \<noteq> nrows w) then Inl RuntimeError
      else Inr (Tensor (butlast (shape x) @ [nrows w])
        (concat (map (\<lambda>n. map (\<lambda>oi.
            (let s = sum_list (map (\<lambda>j. elems x ! (n * ncols w + j) * entries w ! (oi * ncols w + j))
                                   [0..<ncols w])
             in case b of None \<Rightarrow> s | Some bv \<Rightarrow> s + bv ! oi))
          [0..<nrows w]) [0..<numel (butlast (shape x))]))))"

text \<open>
  The sum of two tensors, with torch's broadcasting: the shapes are aligned at the last axis,
  and an axis of size one (or a missing one) is repeated.
\<close>

fun broadcast_rev :: "nat list \<Rightarrow> nat list \<Rightarrow> nat list option" where
  "broadcast_rev [] ys = Some ys"
| "broadcast_rev (x # xs) [] = Some (x # xs)"
| "broadcast_rev (x # xs) (y # ys) =
     (if x = y \<or> y = 1 then map_option (Cons x) (broadcast_rev xs ys)
      else if x = 1 then map_option (Cons y) (broadcast_rev xs ys)
      else None)"

definition broadcast_shapes :: "nat list \<Rightarrow> nat list \<Rightarrow> nat list option" where
  "broadcast_shapes s t = map_option rev (broadcast_rev (rev s) (rev t))"

fun unravel :: "nat list \<Rightarrow> nat \<Rightarrow> nat list" where
  "unravel [] i = []"
| "unravel (d # ds) i = (i div numel ds) # unravel ds (i mod numel ds)"

fun ravel :: "nat list \<Rightarrow> nat list \<Rightarrow> nat" where
  "ravel (d # ds) (j # js) = j * numel ds + ravel ds js"
| "ravel [] js = 0"
| "ravel (d # ds) [] = 0"

definition broadcast_index :: "nat list \<Rightarrow> nat list \<Rightarrow> nat \<Rightarrow> nat" where
  "broadcast_index out s i =
     ravel s (map2 (\<lambda>d j. if d = 1 then 0 else j) s (drop (length out - length s) (unravel out i)))"

definition torch_add :: "tensor \<Rightarrow> tensor \<Rightarrow> error + tensor" where
  "torch_add a b =
     (case broadcast_shapes (shape a) (shape b) of
        None \<Rightarrow> Inl RuntimeError
      | Some s \<Rightarrow> Inr (Tensor s
          (map (\<lambda>i. elems a ! broadcast_index s (shape a) i + elems b ! broadcast_index s (shape b) i)
               [0..<numel s])))"

text \<open>
  \<^verbatim>\<open>torch.cat([a, b], dim=d)\<close>. A one-dimensional tensor without elements is left out, as
  torch does; otherwise the two shapes agree except at axis \<open>d\<close>, and each block of \<open>a\<close> along
  that axis is followed by the block of \<open>b\<close>.
\<close>

definition torch_cat :: "tensor \<Rightarrow> tensor \<Rightarrow> nat \<Rightarrow> error + tensor" where
  "torch_cat a b d =
     (if shape a = [0] \<and> shape b = [0] then Inr (Tensor [0] [])
      else if shape a = [0] then (if d < length (shape b) then Inr b else Inl IndexError)
      else if shape b = [0] then (if d < length (shape a) then Inr a else Inl IndexError)
      else if length (shape a) \<le> d then Inl IndexError
      else if length (shape a) \<noteq> length (shape b) then Inl RuntimeError
      else if (shape a)[d := 0] \<noteq> (shape b)[d := 0] then Inl RuntimeError
      else Inr (Tensor ((shape a)[d := shape a ! d + shape b ! d])
        (concat (map (\<lambda>oi.
            take (numel (drop d (shape a))) (drop (oi * numel (drop d (shape a))) (elems a)) @
            take (numel (drop d (shape b))) (drop (oi * numel (drop d (shape b))) (elems b)))
          [0..<numel (take d (shape a))]))))"

section \<open>Parameters and the module tree\<close>

text \<open>An \<^verbatim>\<open>nn.Parameter\<close>: its tensor and its \<^verbatim>\<open>requires_grad\<close> flag.\<close>

record param =
  data :: tensor
  requires_grad :: bool

text \<open>
  The classes that \<^verbatim>\<open>isinstance\<close> has to tell apart. \<open>LoraRobertaSelfAttention\<close> is
  declared as a subclass of \<open>RobertaSelfAttention\<close> (line 13 of the source), so an instance of
  it is an instance of the base class too.
\<close>

datatype cls = RobertaSelfAttention | LoraRobertaSelfAttention | OtherModule

definition isinstance_RobertaSelfAttention :: "cls \<Rightarrow> bool" where
  "isinstance_RobertaSelfAttention c = (c = RobertaSelfAttention \<or> c = LoraRobertaSelfAttention)"

text \<open>
  An \<^verbatim>\<open>nn.Module\<close>: its class, its own parameters and its child modules, both in
  registration order.
\<close>

datatype module = Module (cls: cls) (parameters: "(string \<times> param) list")
  (children: "(string \<times> module) list")

text \<open>
  \<^verbatim>\<open>named_parameters()\<close>: the module's own parameters first, then those of each child with
  the child's name and a dot put in front.
\<close>

fun named_parameters_pre :: "string \<Rightarrow> module \<Rightarrow> (string \<times> param) list" where
  "named_parameters_pre pre (Module c ps cs) =
     map (\<lambda>(n, p). (pre @ n, p)) ps @
     concat (map (\<lambda>(n, m). named_parameters_pre (pre @ n @ ''.'') m) cs)"

definition named_parameters :: "module \<Rightarrow> (string \<times> param) list" where
  "named_parameters m = named_parameters_pre [] m"

text \<open>
  Assignment to a field of the parameter object that \<^verbatim>\<open>named_parameters()\<close> yielded under
  the name \<open>target\<close>: the parameter is updated where it lives in the tree.
\<close>

fun update_named_pre :: "string \<Rightarrow> string \<Rightarrow> (param \<Rightarrow> param) \<Rightarrow> module \<Rightarrow> module" where
  "update_named_pre pre target f (Module c ps cs) =
     Module c
       (map (\<lambda>(n, p). (n, if pre @ n = target then f p else p)) ps)
       (map (\<lambda>(n, m). (n, update_named_pre (pre @ n @ ''.'') target f m)) cs)"

definition update_named :: "string \<Rightarrow> (param \<Rightarrow> param) \<Rightarrow> module \<Rightarrow> module" where
  "update_named target f m = update_named_pre [] target f m"

text \<open>
  The traversal by which torch loads a state dict: every module handles its own parameters
  under the prefix it is reached by, then its children with their names added to the prefix.
\<close>

fun map_named_pre :: "(string \<Rightarrow> param \<Rightarrow> param) \<Rightarrow> string \<Rightarrow> module \<Rightarrow> module" where
  "map_named_pre g pre (Module c ps cs) =
     Module c
       (map (\<lambda>(n, p). (n, g (pre @ n) p)) ps)
       (map (\<lambda>(n, m). (n, map_named_pre g (pre @ n @ ''.'') m)) cs)"

text \<open>
  \<^verbatim>\<open>state_dict()\<close>: the tensors of the named parameters. (The modules of this development
  register no buffers.)
\<close>

definition state_dict :: "module \<Rightarrow> (string \<times> tensor) list" where
  "state_dict m = map (\<lambda>(n, p). (n, data p)) (named_parameters m)"

text \<open>
  \<^verbatim>\<open>load_state_dict(sd, strict=False)\<close>: a parameter whose name is a key of \<open>sd\<close> takes the
  tensor stored there; keys that name no parameter and parameters without a key are let
  pass. A tensor of another shape than the parameter's is an error also when \<open>strict\<close> is off.
\<close>

definition load_state_dict :: "module \<Rightarrow> (string \<times> tensor) list \<Rightarrow> error + module" where
  "load_state_dict m sd =
     (if list_ex (\<lambda>(n, p). case map_of sd n of None \<Rightarrow> False
                                             | Some t \<Rightarrow> shape t \<noteq> shape (data p))
                 (named_parameters m)
      then Inl RuntimeError
      else Inr (map_named_pre
                  (\<lambda>n p. case map_of sd n of None \<Rightarrow> p | Some t \<Rightarrow> p\<lparr>data := t\<rparr>) [] m))"

section \<open>The adapted attention module\<close>

text \<open>An \<^verbatim>\<open>nn.Linear\<close> with a bias, and its forward pass.\<close>

record linear =
  weight :: matrix
  bias :: "real list"

definition linear_forward :: "linear \<Rightarrow> tensor \<Rightarrow> error + tensor" where
  "linear_forward l x = F_linear x (weight l) (Some (bias l))"

text \<open>
  What the constructor of the library class \<open>RobertaSelfAttention\<close> leaves in the object, as
  far as the source reads it: the head counts, the three projections, and the further child
  modules (dropout, and the distance embedding of the relative position types), which have no
  children of their own. The constructor itself is not part of the source and is a parameter
  below.
\<close>

record base_attn =
  num_attention_heads :: nat
  attention_head_size :: nat
  all_head_size :: nat
  query :: linear
  key :: linear
  value' :: linear
  leaf_children :: "(string \<times> (string \<times> tensor) list) list"

text \<open>\<open>LoraRobertaSelfAttention\<close> adds the four low-rank factors (lines 34 to 37).\<close>

record lora_attn = base_attn +
  lora_query_matrix_B :: matrix
  lora_query_matrix_A :: matrix
  lora_value_matrix_B :: matrix
  lora_value_matrix_A :: matrix

text \<open>
  \<open>__init__\<close>, lines 27 to 37. \<open>base_init\<close> is the constructor of the base class,
  \<open>noise_q\<close> and \<open>noise_v\<close> are the values of the two calls of \<^verbatim>\<open>torch.randn\<close>.
\<close>

definition LoraRobertaSelfAttention_init ::
  "('cfg \<Rightarrow> error + base_attn) \<Rightarrow> int \<Rightarrow> 'cfg \<Rightarrow> (nat \<Rightarrow> real) \<Rightarrow> (nat \<Rightarrow> real) \<Rightarrow> error + lora_attn" where
  "LoraRobertaSelfAttention_init base_init r config noise_q noise_v =
     and_then (base_init config) (\<lambda>self.
     let d = int (all_head_size self) in
     and_then (torch_zeros d r) (\<lambda>qB.
     and_then (torch_randn noise_q r d) (\<lambda>qA.
     and_then (torch_zeros d r) (\<lambda>vB.
     and_then (torch_randn noise_v r d) (\<lambda>vA.
       Inr \<lparr>num_attention_heads = num_attention_heads self,
            attention_head_size = attention_head_size self,
            all_head_size = all_head_size self,
            query = query self, key = key self, value' = value' self,
            leaf_children = leaf_children self,
            lora_query_matrix_B = qB, lora_query_matrix_A = qA,
            lora_value_matrix_B = vB, lora_value_matrix_A = vA\<rparr>)))))"

text \<open>\<open>lora_query\<close> and \<open>lora_value\<close>, lines 39 to 53.\<close>

definition lora_query :: "lora_attn \<Rightarrow> tensor \<Rightarrow> error + tensor" where
  "lora_query self x =
     and_then (torch_matmul (lora_query_matrix_B self) (lora_query_matrix_A self))
       (\<lambda>lora_full_query_weights.
     and_then (linear_forward (query self) x) (\<lambda>q.
     and_then (F_linear x lora_full_query_weights None) (\<lambda>delta.
       torch_add q delta)))"

definition lora_value :: "lora_attn \<Rightarrow> tensor \<Rightarrow> error + tensor" where
  "lora_value self x =
     and_then (torch_matmul (lora_value_matrix_B self) (lora_value_matrix_A self))
       (\<lambda>lora_full_value_weights.
     and_then (linear_forward (value' self) x) (\<lambda>v.
     and_then (F_linear x lora_full_value_weights None) (\<lambda>delta.
       torch_add v delta)))"

text \<open>
  \<open>transpose_for_scores\<close> of the base class: the last axis is viewed as heads times head
  size, and the result is permuted from (batch, sequence, head, size) to
  (batch, head, sequence, size).
\<close>

definition transpose_for_scores :: "lora_attn \<Rightarrow> tensor \<Rightarrow> error + tensor" where
  "transpose_for_scores self x =
     (let new_x_shape = butlast (shape x) @ [num_attention_heads self, attention_head_size self]
      in if numel new_x_shape \<noteq> numel (shape x) then Inl RuntimeError
         else (case new_x_shape of
                 [b, s, h, e] \<Rightarrow>
                   Inr (Tensor [b, h, s, e]
                     (concat (map (\<lambda>bi. concat (map (\<lambda>hi. concat (map (\<lambda>si.
                         map (\<lambda>ei. elems x ! (((bi * s + si) * h + hi) * e + ei)) [0..<e])
                       [0..<s])) [0..<h])) [0..<b])))
               | _ \<Rightarrow> Inl RuntimeError))"

text \<open>
  Lines 68 to 95 of \<open>forward\<close>: the query, key and value layers and the mask that the rest
  of the method works with. The attention scores, the softmax, the dropout and the context
  layer (lines 97 to 182) are not part of this development.
\<close>

definition forward_qkv ::
  "lora_attn \<Rightarrow> tensor \<Rightarrow> tensor option \<Rightarrow> tensor option \<Rightarrow> tensor option \<Rightarrow> (tensor \<times> tensor) option
     \<Rightarrow> error + (tensor \<times> tensor \<times> tensor \<times> tensor option)" where
  "forward_qkv self hidden_states attention_mask encoder_hidden_states encoder_attention_mask
       past_key_value =
     and_then (lora_query self hidden_states) (\<lambda>mixed_query_layer.
     and_then
       (case (encoder_hidden_states, past_key_value) of
          (Some enc, Some past) \<Rightarrow> Inr (fst past, snd past, encoder_attention_mask)
        | (Some enc, None) \<Rightarrow>
            and_then (linear_forward (key self) enc) (\<lambda>k.
            and_then (transpose_for_scores self k) (\<lambda>key_layer.
            and_then (lora_value self enc) (\<lambda>v.
            and_then (transpose_for_scores self v) (\<lambda>value_layer.
              Inr (key_layer, value_layer, encoder_attention_mask)))))
        | (None, Some past) \<Rightarrow>
            and_then (linear_forward (key self) hidden_states) (\<lambda>k.
            and_then (transpose_for_scores self k) (\<lambda>key_layer.
            and_then (lora_value self hidden_states) (\<lambda>v.
            and_then (transpose_for_scores self v) (\<lambda>value_layer.
            and_then (torch_cat (fst past) key_layer 2) (\<lambda>key_layer'.
            and_then (torch_cat (snd past) value_layer 2) (\<lambda>value_layer'.
              Inr (key_layer', value_layer', attention_mask)))))))
        | (None, None) \<Rightarrow>
            and_then (linear_forward (key self) hidden_states) (\<lambda>k.
            and_then (transpose_for_scores self k) (\<lambda>key_layer.
            and_then (lora_value self hidden_states) (\<lambda>v.
            and_then (transpose_for_scores self v) (\<lambda>value_layer.
              Inr (key_layer, value_layer, attention_mask))))))
       (\<lambda>(key_layer, value_layer, mask).
     and_then (transpose_for_scores self mixed_query_layer) (\<lambda>query_layer.
       Inr (query_layer, key_layer, value_layer, mask))))"

text \<open>
  The adapted module as a node of the module tree: the four factors are its own parameters,
  the projections and the further children of the base class are its child modules. A
  parameter that has just been created requires a gradient.
\<close>

definition fresh_param :: "tensor \<Rightarrow> param" where
  "fresh_param t = \<lparr>data = t, requires_grad = True\<rparr>"

definition module_of_linear :: "linear \<Rightarrow> module" where
  "module_of_linear l =
     Module OtherModule
       [(''weight'', fresh_param (as_tensor (weight l))),
        (''bias'', fresh_param (Tensor [length (bias l)] (bias l)))] []"

definition module_of_leaf :: "(string \<times> tensor) list \<Rightarrow> module" where
  "module_of_leaf ps = Module OtherModule (map (\<lambda>(n, t). (n, fresh_param t)) ps) []"

definition module_of :: "lora_attn \<Rightarrow> module" where
  "module_of self =
     Module LoraRobertaSelfAttention
       [(''lora_query_matrix_B'', fresh_param (as_tensor (lora_query_matrix_B self))),
        (''lora_query_matrix_A'', fresh_param (as_tensor (lora_query_matrix_A self))),
        (''lora_value_matrix_B'', fresh_param (as_tensor (lora_value_matrix_B self))),
        (''lora_value_matrix_A'', fresh_param (as_tensor (lora_value_matrix_A self)))]
       ([(''query'', module_of_linear (query self)),
         (''key'', module_of_linear (key self)),
         (''value'', module_of_linear (value' self))] @
        map (\<lambda>(n, ps). (n, module_of_leaf ps)) (leaf_children self))"

section \<open>The wrapper\<close>

text \<open>
  The collaborators of the wrapper that are not part of the source:
  \<^verbatim>\<open>RobertaModel.from_pretrained\<close>, which gives the model and its configuration or fails,
  the constructor of \<open>RobertaSelfAttention\<close>, and the values drawn by the calls of
  \<^verbatim>\<open>torch.randn\<close> (\<open>randn_noise k\<close> for the \<open>k\<close>-th of them).
\<close>

record 'cfg lib =
  from_pretrained :: "string \<Rightarrow> error + (module \<times> 'cfg)"
  RobertaSelfAttention_init :: "'cfg \<Rightarrow> error + base_attn"
  randn_noise :: "nat \<Rightarrow> nat \<Rightarrow> real"

text \<open>
  The attributes of a \<open>LoraWrapperRobertaHelper\<close>. The configuration object is the loaded
  model's; its type is a parameter.
\<close>

record 'cfg wrapper =
  model :: module
  model_config :: 'cfg
  lora_rank :: int
  train_biases :: bool
  train_embeddings :: bool
  train_layer_norms :: bool
  nr_replaced_modules :: nat

text \<open>
  Lines 267 to 288: the replacement for one attention module. The counter has been raised
  before; the draws of \<^verbatim>\<open>torch.randn\<close> are numbered by it.
\<close>

definition replace_one :: "'cfg lib \<Rightarrow> 'cfg wrapper \<Rightarrow> module \<Rightarrow> error + module" where
  "replace_one lib self submodule =
     and_then (LoraRobertaSelfAttention_init (RobertaSelfAttention_init lib) (lora_rank self)
                 (model_config self)
                 (randn_noise lib (2 * nr_replaced_modules self))
                 (randn_noise lib (2 * nr_replaced_modules self + 1))) (\<lambda>new_attn.
     let state_dict_old = state_dict submodule in
     and_then (load_state_dict (module_of new_attn) state_dict_old) (\<lambda>new_layer.
     let state_dict_new = state_dict new_layer;
         keys_old = set (map fst state_dict_old);
         keys_new = set (filter (\<lambda>k. \<not> startswith k ''lora_'') (map fst state_dict_new))
     in if keys_old = keys_new then Inr new_layer
        else Inl (AssertionError keys_old keys_new)))"

text \<open>
  \<open>replace_multihead_attention_recursion\<close>, lines 250 to 295: the loop over
  \<^verbatim>\<open>named_children()\<close> is \<open>replace_children\<close>. The wrapper is passed along for its counter;
  its \<open>model\<close> attribute is the root that is being rewritten and is stored by the caller.
\<close>

fun replace_multihead_attention_recursion ::
    "'cfg lib \<Rightarrow> 'cfg wrapper \<Rightarrow> module \<Rightarrow> error + ('cfg wrapper \<times> module)"
  and replace_children ::
    "'cfg lib \<Rightarrow> 'cfg wrapper \<Rightarrow> (string \<times> module) list \<Rightarrow> error + ('cfg wrapper \<times> (string \<times> module) list)"
where
  "replace_multihead_attention_recursion lib self (Module c ps cs) =
     and_then (replace_children lib self cs) (\<lambda>(self', cs'). Inr (self', Module c ps cs'))"
| "replace_children lib self [] = Inr (self, [])"
| "replace_children lib self ((name, submodule) # rest) =
     (if isinstance_RobertaSelfAttention (cls submodule) then
        (let self1 = self\<lparr>nr_replaced_modules := nr_replaced_modules self + 1\<rparr> in
         and_then (replace_one lib self1 submodule) (\<lambda>new_layer.
         and_then (replace_children lib self1 rest) (\<lambda>(self2, rest').
           Inr (self2, (name, new_layer) # rest'))))
      else
        and_then (replace_multihead_attention_recursion lib self submodule) (\<lambda>(self1, module').
        and_then (replace_children lib self1 rest) (\<lambda>(self2, rest').
          Inr (self2, (name, module') # rest'))))"

text \<open>\<open>replace_multihead_attention\<close>, lines 234 to 248. The printed line is left out.\<close>

definition replace_multihead_attention :: "'cfg lib \<Rightarrow> 'cfg wrapper \<Rightarrow> error + 'cfg wrapper" where
  "replace_multihead_attention lib self =
     (let self0 = self\<lparr>nr_replaced_modules := 0\<rparr> in
      and_then (replace_multihead_attention_recursion lib self0 (model self0))
        (\<lambda>(self1, m). Inr (self1\<lparr>model := m\<rparr>)))"

text \<open>The condition of the \<^verbatim>\<open>if\<close> at lines 304 to 310.\<close>

definition trainable_name :: "'cfg wrapper \<Rightarrow> string \<Rightarrow> bool" where
  "trainable_name self name =
     (str_in ''lora_'' name
      \<or> str_in ''finetune_head_'' name
      \<or> (train_biases self \<and> str_in ''bias'' name)
      \<or> (train_embeddings self \<and> str_in ''embeddings'' name)
      \<or> (train_layer_norms self \<and> str_in ''LayerNorm'' name))"

text \<open>
  \<open>freeze_parameters_except_lora_and_bias\<close>, lines 297 to 353. The loop of lines 303 to 313
  visits the list that \<^verbatim>\<open>named_parameters()\<close> yields and assigns \<^verbatim>\<open>requires_grad\<close> of each
  parameter. The statements after the loop belong to the same function: line 331 reads
  \<^verbatim>\<open>lora_parameters\<close>, which is a local variable of the function (line 334 assigns it) and
  is not bound on any path to line 331, so the read raises \<open>UnboundLocalError\<close> and lines 332
  to 353 never run. The assignments of the loop stay in place.
\<close>

definition freeze_loop :: "'cfg wrapper \<Rightarrow> module" where
  "freeze_loop self =
     fold (\<lambda>(name, param) m.
             update_named name (\<lambda>p. p\<lparr>requires_grad := trainable_name self name\<rparr>) m)
          (named_parameters (model self)) (model self)"

definition freeze_parameters_except_lora_and_bias ::
  "'cfg wrapper \<Rightarrow> (error + unit) \<times> 'cfg wrapper" where
  "freeze_parameters_except_lora_and_bias self =
     (Inl UnboundLocalError, self\<lparr>model := freeze_loop self\<rparr>)"

text \<open>
  \<open>__init__\<close> of the wrapper, lines 186 to 232. An argument that the caller leaves out is
  \<open>None\<close> here and takes the default of the signature; the arguments that share their name
  with an attribute are primed. The result is how the call ends and,
  where the freezing policy has been reached, the attributes of the object at that point.
\<close>

definition arg_or :: "'a \<Rightarrow> 'a option \<Rightarrow> 'a" where
  "arg_or dflt a = (case a of None \<Rightarrow> dflt | Some v \<Rightarrow> v)"

definition LoraWrapperRobertaHelper_init ::
  "'cfg lib \<Rightarrow> string option \<Rightarrow> int option \<Rightarrow> bool option \<Rightarrow> bool option \<Rightarrow> bool option
     \<Rightarrow> (error + unit) \<times> 'cfg wrapper option" where
  "LoraWrapperRobertaHelper_init lib model_id lora_rank' train_biases' train_embedding
       train_layer_norms' =
     (case from_pretrained lib (arg_or ''roberta-base'' model_id) of
        Inl e \<Rightarrow> (Inl e, None)
      | Inr (m, config) \<Rightarrow>
          (case replace_multihead_attention lib
                  \<lparr>model = m, model_config = config,
                   lora_rank = arg_or 8 lora_rank',
                   train_biases = arg_or True train_biases',
                   train_embeddings = arg_or False train_embedding,
                   train_layer_norms = arg_or True train_layer_norms',
                   nr_replaced_modules = 0\<rparr> of
             Inl e \<Rightarrow> (Inl e, None)
           | Inr self \<Rightarrow>
               (case freeze_parameters_except_lora_and_bias self of
                  (r, self') \<Rightarrow> (r, Some self'))))"

section \<open>Notions for the statements about module replacement\<close>

text \<open>
  These are not functions of the source. \<open>attention_layers m\<close> counts the modules below
  \<open>m\<close> that are instances of the base attention class and do not lie inside another such
  instance; \<open>unadapted_below m\<close> says that some module below \<open>m\<close> has the class
  \<open>RobertaSelfAttention\<close> itself. \<open>carries_over old new\<close> says that every key of the state
  dict of \<open>old\<close> holds the same tensor in the state dict of \<open>new\<close>, that every further key
  of \<open>new\<close> begins with \<^verbatim>\<open>lora_\<close>, and that no key of \<open>old\<close> does. \<open>replaced_in m m'\<close> says
  that \<open>m'\<close> is \<open>m\<close> with the same names, classes and own parameters everywhere, except that
  each child that is an instance of the base attention class has become an adapted module
  that carries its parameters over; the children of such a child are not compared.
\<close>

fun attention_layers :: "module \<Rightarrow> nat" where
  "attention_layers (Module c ps cs) =
     sum_list (map (\<lambda>(n, m). if isinstance_RobertaSelfAttention (cls m) then 1
                              else attention_layers m) cs)"

fun unadapted_below :: "module \<Rightarrow> bool" where
  "unadapted_below (Module c ps cs) =
     list_ex (\<lambda>(n, m). cls m = RobertaSelfAttention \<or> unadapted_below m) cs"

definition carries_over :: "module \<Rightarrow> module \<Rightarrow> bool" where
  "carries_over old new =
     (list_all (\<lambda>k. map_of (state_dict new) k = map_of (state_dict old) k)
               (map fst (state_dict old))
      \<and> list_all (\<lambda>k. k \<in> set (map fst (state_dict old)) \<or> startswith k ''lora_'')
                  (map fst (state_dict new))
      \<and> list_all (\<lambda>k. \<not> startswith k ''lora_'') (map fst (state_dict old)))"

fun replaced_in :: "module \<Rightarrow> module \<Rightarrow> bool" where
  "replaced_in (Module c ps cs) (Module c' ps' cs') =
     (c' = c \<and> ps' = ps \<and>
      list_all2 (\<lambda>(n, m) (n', m'). n' = n \<and>
         (if isinstance_RobertaSelfAttention (cls m)
          then cls m' = LoraRobertaSelfAttention \<and> carries_over m m'
          else replaced_in m m')) cs cs')"

text \<open>
  Three more notions for the statements about the integrity check. \<open>attention_modules m\<close>
  lists, in the order in which the traversal reaches them, the modules below \<open>m\<close> that are
  instances of the base attention class and do not lie inside another such instance.
  \<open>raised r\<close> is the exception with which a call has ended, if any, and
  \<open>first_failure f xs\<close> is the exception of the first element of \<open>xs\<close> on which \<open>f\<close> raises.
  \<open>skeleton m\<close> lists the names of the parameters of \<open>m\<close> with the shapes of their tensors.
\<close>

fun attention_modules :: "module \<Rightarrow> module list" where
  "attention_modules (Module c ps cs) =
     concat (map (\<lambda>(n, m). if isinstance_RobertaSelfAttention (cls m) then [m]
                            else attention_modules m) cs)"

definition raised :: "error + 'a \<Rightarrow> error option" where
  "raised r = (case r of Inl e \<Rightarrow> Some e | Inr v \<Rightarrow> None)"

fun first_failure :: "('a \<Rightarrow> error + 'b) \<Rightarrow> 'a list \<Rightarrow> error option" where
  "first_failure f [] = None"
| "first_failure f (x # xs) =
     (case raised (f x) of Some e \<Rightarrow> Some e | None \<Rightarrow> first_failure f xs)"

definition skeleton :: "module \<Rightarrow> (string \<times> nat list) list" where
  "skeleton m = map (\<lambda>(n, p). (n, shape (data p))) (named_parameters m)"

section \<open>A small model for the concrete evaluations\<close>

text \<open>
  A model with one attention layer of hidden size two, and collaborators that resolve the
  identifier \<^verbatim>\<open>roberta-base\<close> to it and no other.
\<close>

definition example_linear :: linear where
  "example_linear = \<lparr>weight = Matrix 2 2 [1, 2, 3, 4], bias = [5, 6]\<rparr>"

definition example_base :: base_attn where
  "example_base =
     \<lparr>num_attention_heads = 1, attention_head_size = 2, all_head_size = 2,
      query = example_linear, key = example_linear, value' = example_linear,
      leaf_children = [(''dropout'', [])]\<rparr>"

definition example_attention :: module where
  "example_attention =
     Module RobertaSelfAttention []
       [(''query'', module_of_linear example_linear),
        (''key'', module_of_linear example_linear),
        (''value'', module_of_linear example_linear),
        (''dropout'', module_of_leaf [])]"

definition example_model :: module where
  "example_model =
     Module OtherModule []
       [(''embeddings'', Module OtherModule []
           [(''word_embeddings'', module_of_leaf [(''weight'', Tensor [3, 2] [1, 2, 3, 4, 5, 6])]),
            (''LayerNorm'', module_of_leaf [(''weight'', Tensor [2] [1, 1]), (''bias'', Tensor [2] [0, 0])])]),
        (''encoder'', Module OtherModule []
           [(''layer'', Module OtherModule []
              [(''0'', Module OtherModule []
                 [(''attention'', Module OtherModule []
                    [(''self'', example_attention),
                     (''output'', Module OtherModule []
                        [(''dense'', module_of_linear example_linear)])])])])])]"

definition example_lib :: "unit lib" where
  "example_lib =
     \<lparr>from_pretrained = (\<lambda>model_id. if model_id = ''roberta-base'' then Inr (example_model, ()) else Inl OSError),
      RobertaSelfAttention_init = (\<lambda>config. Inr example_base),
      randn_noise = (\<lambda>k i. 1)\<rparr>"

text \<open>
  The adapted module that \<open>LoraRobertaSelfAttention_init\<close> builds from the small base
  module with rank one, when every draw of \<^verbatim>\<open>torch.randn\<close> is one.
\<close>

definition example_lora :: lora_attn where
  "example_lora =
     \<lparr>num_attention_heads = 1, attention_head_size = 2, all_head_size = 2,
      query = example_linear, key = example_linear, value' = example_linear,
      leaf_children = [(''dropout'', [])],
      lora_query_matrix_B = Matrix 2 1 [0, 0], lora_query_matrix_A = Matrix 1 2 [1, 1],
      lora_value_matrix_B = Matrix 2 1 [0, 0], lora_value_matrix_A = Matrix 1 2 [1, 1]\<rparr>"

text \<open>
  A wrapper of rank one around the small model, and an attention module that lacks the bias
  of its value projection.
\<close>

definition example_wrapper :: "unit wrapper" where
  "example_wrapper =
     \<lparr>model = example_model, model_config = (), lora_rank = 1, train_biases = True,
      train_embeddings = False, train_layer_norms = True, nr_replaced_modules = 0\<rparr>"

definition example_mismatched :: module where
  "example_mismatched =
     Module RobertaSelfAttention []
       [(''query'', module_of_linear example_linear),
        (''key'', module_of_linear example_linear),
        (''value'', module_of_leaf [(''weight'', Tensor [2, 2] [1, 2, 3, 4])])]"

text \<open>The small model with its attention module replaced by the adapted one.\<close>

definition example_adapted_model :: module where
  "example_adapted_model =
     Module OtherModule []
       [(''embeddings'', Module OtherModule []
           [(''word_embeddings'', module_of_leaf [(''weight'', Tensor [3, 2] [1, 2, 3, 4, 5, 6])]),
            (''LayerNorm'', module_of_leaf [(''weight'', Tensor [2] [1, 1]), (''bias'', Tensor [2] [0, 0])])]),
        (''encoder'', Module OtherModule []
           [(''layer'', Module OtherModule []
              [(''0'', Module OtherModule []
                 [(''attention'', Module OtherModule []
                    [(''self'', module_of example_lora),
                     (''output'', Module OtherModule []
                        [(''dense'', module_of_linear example_linear)])])])])])]"

text \<open>
  A model whose only attention module is the one that lacks the bias of its value
  projection, collaborators that resolve every identifier to it, and a wrapper of rank one
  around it.
\<close>

definition example_mismatched_model :: module where
  "example_mismatched_model =
     Module OtherModule []
       [(''embeddings'', Module OtherModule []
           [(''word_embeddings'', module_of_leaf [(''weight'', Tensor [3, 2] [1, 2, 3, 4, 5, 6])])]),
        (''encoder'', Module OtherModule []
           [(''attention'', Module OtherModule [] [(''self'', example_mismatched)])])]"

definition example_mismatched_lib :: "unit lib" where
  "example_mismatched_lib =
     \<lparr>from_pretrained = (\<lambda>model_id. Inr (example_mismatched_model, ())),
      RobertaSelfAttention_init = (\<lambda>config. Inr example_base),
      randn_noise = (\<lambda>k i. 1)\<rparr>"

definition example_mismatched_wrapper :: "unit wrapper" where
  "example_mismatched_wrapper =
     \<lparr>model = example_mismatched_model, model_config = (), lora_rank = 1, train_biases = True,
      train_embeddings = False, train_layer_norms = True, nr_replaced_modules = 0\<rparr>"

section \<open>The freezing policy\<close>

lemma update_named_pre_map:
  "update_named_pre pre t f m = map_named_pre (\<lambda>n p. if n = t then f p else p) pre m"
  by (induction pre t f m rule: update_named_pre.induct) auto

lemma map_named_pre_comp:
  "map_named_pre g pre (map_named_pre h pre m) = map_named_pre (\<lambda>n. g n \<circ> h n) pre m"
  by (induction h pre m rule: map_named_pre.induct) auto

lemma named_parameters_map_named:
  "named_parameters_pre pre (map_named_pre g pre m) =
     map (\<lambda>(n, p). (n, g n p)) (named_parameters_pre pre m)"
proof (induction g pre m rule: map_named_pre.induct)
  case (1 g pre c ps cs)
  have "concat (map (\<lambda>(n, m). named_parameters_pre (pre @ n @ ''.'') m)
           (map (\<lambda>(n, m). (n, map_named_pre g (pre @ n @ ''.'') m)) cs)) =
        concat (map (\<lambda>(n, m). map (\<lambda>(n, p). (n, g n p)) (named_parameters_pre (pre @ n @ ''.'') m)) cs)"
    using 1 by (auto simp: comp_def case_prod_unfold intro!: arg_cong[where f=concat])
  then show ?case
    by (simp add: comp_def case_prod_unfold map_concat)
qed

lemma own_in_named_parameters_pre:
  "(n, p) \<in> set ps \<Longrightarrow> (pre @ n, p) \<in> set (named_parameters_pre pre (Module c ps cs))"
  by force

lemma child_in_named_parameters_pre:
  "(n, m) \<in> set cs \<Longrightarrow> x \<in> set (named_parameters_pre (pre @ n @ ''.'') m) \<Longrightarrow>
     x \<in> set (named_parameters_pre pre (Module c ps cs))"
  by force

lemma map_named_pre_cong:
  "(\<And>n p. (n, p) \<in> set (named_parameters_pre pre m) \<Longrightarrow> g n p = h n p) \<Longrightarrow>
     map_named_pre g pre m = map_named_pre h pre m"
proof (induction g pre m rule: map_named_pre.induct)
  case (1 g pre c ps cs)
  have a: "map (\<lambda>(n, p). (n, g (pre @ n) p)) ps = map (\<lambda>(n, p). (n, h (pre @ n) p)) ps"
    using 1(2) own_in_named_parameters_pre by (auto)
  have b: "map (\<lambda>(n, m). (n, map_named_pre g (pre @ n @ ''.'') m)) cs =
           map (\<lambda>(n, m). (n, map_named_pre h (pre @ n @ ''.'') m)) cs"
  proof (rule map_cong[OF refl])
    fix x assume x: "x \<in> set cs"
    obtain n m where nm: "x = (n, m)" by (cases x)
    have "map_named_pre g (pre @ n @ ''.'') m = map_named_pre h (pre @ n @ ''.'') m"
    proof (rule 1(1))
      show "(n, m) \<in> set cs" using x nm by simp
      show "(n, m) = (n, m)" by simp
      fix k p assume "(k, p) \<in> set (named_parameters_pre (pre @ n @ ''.'') m)"
      then have "(k, p) \<in> set (named_parameters_pre pre (Module c ps cs))"
        using x nm child_in_named_parameters_pre by blast
      then show "g k p = h k p" by (rule 1(2))
    qed
    then show "(case x of (n, m) \<Rightarrow> (n, map_named_pre g (pre @ n @ ''.'') m)) =
               (case x of (n, m) \<Rightarrow> (n, map_named_pre h (pre @ n @ ''.'') m))"
      using nm by simp
  qed
  show ?case using a b by simp
qed

lemma map_named_pre_id: "map_named_pre (\<lambda>n p. p) pre m = m"
proof (induction "\<lambda>(n::string) (p::param). p" pre m rule: map_named_pre.induct)
  case (1 pre c ps cs)
  have "map (\<lambda>(n, m). (n, map_named_pre (\<lambda>n p. p) (pre @ n @ ''.'') m)) cs = cs"
    by (rule map_idI) (use 1 in auto)
  then show ?case by simp
qed

lemma fold_update_named:
  assumes idem: "\<And>n p. F n (F n p) = F n p"
  shows "fold (\<lambda>(name, param) m. update_named name (F name) m) xs m =
     map_named_pre (\<lambda>n p. if n \<in> fst ` set xs then F n p else p) [] m"
proof (induction xs arbitrary: m)
  case Nil
  show ?case by (simp add: map_named_pre_id)
next
  case (Cons x xs)
  obtain k q where x: "x = (k, q)" by (cases x)
  have "(\<lambda>n. (\<lambda>p. if n \<in> fst ` set xs then F n p else p) \<circ> (\<lambda>p. if n = k then F k p else p)) =
        (\<lambda>n p. if n \<in> fst ` set (x # xs) then F n p else p)"
    using x idem by (auto simp: fun_eq_iff)
  then show ?case
    using Cons x by (simp add: update_named_def update_named_pre_map map_named_pre_comp)
qed

lemma freeze_loop_eq:
  "freeze_loop self =
     map_named_pre (\<lambda>n p. p\<lparr>requires_grad := trainable_name self n\<rparr>) [] (model self)"
proof -
  let ?F = "\<lambda>n p. p\<lparr>requires_grad := trainable_name self n\<rparr>"
  have "freeze_loop self =
     map_named_pre (\<lambda>n p. if n \<in> fst ` set (named_parameters (model self)) then ?F n p else p) []
       (model self)"
    unfolding freeze_loop_def by (rule fold_update_named) simp
  also have "\<dots> = map_named_pre ?F [] (model self)"
    by (rule map_named_pre_cong) (force simp: named_parameters_def)
  finally show ?thesis .
qed

text \<open>
  Claim C3. When \<open>freeze_parameters_except_lora_and_bias\<close> has run, the parameters that
  \<^verbatim>\<open>named_parameters()\<close> yields carry the names they had before, and \<^verbatim>\<open>requires_grad\<close>
  of each is true exactly if its name contains \<^verbatim>\<open>lora_\<close>, or contains
  \<^verbatim>\<open>finetune_head_\<close>, or contains \<^verbatim>\<open>bias\<close> while the biases flag is set, or contains
  \<^verbatim>\<open>embeddings\<close> while the embeddings flag is set, or contains \<^verbatim>\<open>LayerNorm\<close> while the
  layer-norms flag is set. The statement is about the wrapper that the call leaves behind; the
  call itself ends in the exception of line 331.
\<close>

theorem freeze_marks_by_rule:
  "map (\<lambda>(n, p). (n, requires_grad p))
       (named_parameters (model (snd (freeze_parameters_except_lora_and_bias self)))) =
     map (\<lambda>(n, p). (n,
            str_in ''lora_'' n \<or> str_in ''finetune_head_'' n
            \<or> (str_in ''bias'' n \<and> train_biases self)
            \<or> (str_in ''embeddings'' n \<and> train_embeddings self)
            \<or> (str_in ''LayerNorm'' n \<and> train_layer_norms self)))
       (named_parameters (model self))"
  by (auto simp: freeze_parameters_except_lora_and_bias_def freeze_loop_eq named_parameters_def
      named_parameters_map_named trainable_name_def)

lemma freeze_state:
  "snd (freeze_parameters_except_lora_and_bias self) =
     self\<lparr>model := map_named_pre (\<lambda>n p. p\<lparr>requires_grad := trainable_name self n\<rparr>) [] (model self)\<rparr>"
  by (simp add: freeze_parameters_except_lora_and_bias_def freeze_loop_eq)

lemma trainable_name_model_update [simp]:
  "trainable_name (self\<lparr>model := m\<rparr>) n = trainable_name self n"
  by (simp add: trainable_name_def)

text \<open>
  Claim C9. Running \<open>freeze_parameters_except_lora_and_bias\<close> on the wrapper that a first
  run has left gives the result of the first run again, the flags of all parameters and the way
  the call ends included. A run changes nothing but \<^verbatim>\<open>requires_grad\<close> flags: the other
  attributes of the wrapper stay, the tensors of the model stay under their names, and the
  model after the run agrees with the model before it once the flags are overwritten in both.
\<close>

theorem freeze_idempotent:
  "freeze_parameters_except_lora_and_bias (snd (freeze_parameters_except_lora_and_bias self)) =
     freeze_parameters_except_lora_and_bias self
   \<and> (snd (freeze_parameters_except_lora_and_bias self))\<lparr>model := model self\<rparr> = self
   \<and> state_dict (model (snd (freeze_parameters_except_lora_and_bias self))) =
       state_dict (model self)
   \<and> map_named_pre (\<lambda>n p. p\<lparr>requires_grad := b\<rparr>) []
         (model (snd (freeze_parameters_except_lora_and_bias self))) =
       map_named_pre (\<lambda>n p. p\<lparr>requires_grad := b\<rparr>) [] (model self)"
proof -
  let ?F = "\<lambda>n p. p\<lparr>requires_grad := trainable_name self n\<rparr>"
  have twice: "map_named_pre ?F [] (map_named_pre ?F [] (model self)) =
               map_named_pre ?F [] (model self)"
    by (simp add: map_named_pre_comp comp_def)
  have 1: "freeze_parameters_except_lora_and_bias (snd (freeze_parameters_except_lora_and_bias self)) =
     freeze_parameters_except_lora_and_bias self"
    using twice
    by (simp add: freeze_parameters_except_lora_and_bias_def freeze_loop_eq)
  have 2: "(snd (freeze_parameters_except_lora_and_bias self))\<lparr>model := model self\<rparr> = self"
    by (simp add: freeze_parameters_except_lora_and_bias_def)
  have 3: "state_dict (model (snd (freeze_parameters_except_lora_and_bias self))) =
       state_dict (model self)"
    by (simp add: freeze_state state_dict_def named_parameters_def named_parameters_map_named
        comp_def case_prod_unfold)
  have 4: "map_named_pre (\<lambda>n p. p\<lparr>requires_grad := b\<rparr>) []
         (model (snd (freeze_parameters_except_lora_and_bias self))) =
       map_named_pre (\<lambda>n p. p\<lparr>requires_grad := b\<rparr>) [] (model self)"
    by (simp add: freeze_state map_named_pre_comp comp_def)
  show ?thesis using 1 2 3 4 by simp
qed

section \<open>Construction and the statements after the loop\<close>

text \<open>
  Claim C7. The statements that load adapter state (lines 330 to 353) are the tail of
  \<open>freeze_parameters_except_lora_and_bias\<close>, which takes no path and no state mapping; for
  every wrapper the call ends in \<open>UnboundLocalError\<close>, raised where line 331 reads the local
  variable, before any of those statements runs.
\<close>

theorem load_logic_unreachable:
  "fst (freeze_parameters_except_lora_and_bias self) = Inl UnboundLocalError"
  by (simp add: freeze_parameters_except_lora_and_bias_def)

text \<open>
  Claim C2. \<open>__init__\<close> ends with the call of the freezing policy, so no construction
  returns normally, whatever the collaborators and the arguments are; with the identifier
  resolved and the replacement done, as in the small model, the exception is
  \<open>UnboundLocalError\<close>.
\<close>

theorem construction_always_raises:
  "fst (LoraWrapperRobertaHelper_init lib model_id rank biases embedding layer_norms) \<noteq> Inr ()
   \<and> fst (LoraWrapperRobertaHelper_init example_lib None None None None None) =
       Inl UnboundLocalError"
proof
  show "fst (LoraWrapperRobertaHelper_init lib model_id rank biases embedding layer_norms) \<noteq> Inr ()"
    by (simp add: LoraWrapperRobertaHelper_init_def freeze_parameters_except_lora_and_bias_def
        split: sum.splits prod.splits)
  show "fst (LoraWrapperRobertaHelper_init example_lib None None None None None) =
       Inl UnboundLocalError"
    by code_simp
qed

section \<open>The adapted projections at initialisation\<close>


lemma length_concat_map_upt:
  "length (concat (map (\<lambda>i. map (f i) [0..<m]) [0..<n])) = n * m"
  by (induction n) simp_all





lemma F_linear_shape:
  assumes "F_linear x w b = Inr y"
  shows "shape x \<noteq> []" "last (shape x) = ncols w"
    "shape y = butlast (shape x) @ [nrows w]"
    "length (elems y) = numel (shape y)"
  using assms
  by (auto simp: F_linear_def numel_def length_concat_map_upt split: if_splits)

lemma broadcast_rev_same: "broadcast_rev s s = Some s"
  by (induction s) simp_all










section \<open>Keys and values of the forward pass\<close>

lemma and_then_Inr: "and_then r f = Inr y \<longleftrightarrow> (\<exists>v. r = Inr v \<and> f v = Inr y)"
  by (cases r) (simp_all add: and_then_def)

lemma transpose_for_scores_shape:
  assumes "transpose_for_scores self x = Inr y"
  shows "\<exists>b s. butlast (shape x) = [b, s] \<and>
           shape y = [b, num_attention_heads self, s, attention_head_size self]"
  using assms
  by (auto simp: transpose_for_scores_def Let_def split: if_splits list.splits)

lemma torch_cat_shape:
  assumes "torch_cat a b d = Inr c" "shape a \<noteq> [0]" "shape b \<noteq> [0]"
  shows "d < length (shape a)" "shape c = (shape a)[d := shape a ! d + shape b ! d]"
    "(shape b)[d := 0] = (shape a)[d := 0]"
  using assms by (auto simp: torch_cat_def split: if_splits)

lemma broadcast_shapes_last:
  assumes "broadcast_shapes (pre @ [a]) (pre @ [c]) = Some r"
  shows "butlast r = pre"
  using assms
  by (auto simp: broadcast_shapes_def broadcast_rev_same split: if_splits)

lemma lora_projection_shape:
  assumes "and_then (torch_matmul bm am) (\<lambda>full.
           and_then (linear_forward l x) (\<lambda>q.
           and_then (F_linear x full None) (\<lambda>delta. torch_add q delta))) = Inr y"
  shows "butlast (shape y) = butlast (shape x)"
proof -
  obtain full q delta where s: "linear_forward l x = Inr q" "F_linear x full None = Inr delta"
    "torch_add q delta = Inr y"
    using assms by (auto simp: and_then_Inr)
  have q: "shape q = butlast (shape x) @ [nrows (weight l)]"
    using F_linear_shape(3)[OF s(1)[unfolded linear_forward_def]] .
  have d: "shape delta = butlast (shape x) @ [nrows full]"
    using F_linear_shape(3)[OF s(2)] .
  obtain r where r: "broadcast_shapes (shape q) (shape delta) = Some r" "shape y = r"
    using s(3) by (auto simp: torch_add_def split: option.splits)
  show ?thesis
    using broadcast_shapes_last[of "butlast (shape x)" "nrows (weight l)" "nrows full" r] r q d
    by simp
qed

lemma cached_layer_shape:
  assumes "linear_forward l x = Inr k \<or> lora_value self x = Inr k"
      and "transpose_for_scores self k = Inr k'"
      and "torch_cat past k' 2 = Inr layer"
  shows "\<exists>b s. butlast (shape x) = [b, s]
           \<and> shape k' = [b, num_attention_heads self, s, attention_head_size self]
           \<and> (shape past \<noteq> [0] \<longrightarrow>
                shape layer =
                  [b, num_attention_heads self, shape past ! 2 + s, attention_head_size self])"
proof -
  have "butlast (shape k) = butlast (shape x)"
    using assms(1) F_linear_shape(3)[of x _ _ k] lora_projection_shape[of _ _ _ x k]
    by (auto simp: linear_forward_def lora_value_def)
  then obtain b s where ks: "butlast (shape x) = [b, s]"
    "shape k' = [b, num_attention_heads self, s, attention_head_size self]"
    using transpose_for_scores_shape[OF assms(2)] by auto
  have "shape layer =
      [b, num_attention_heads self, shape past ! 2 + s, attention_head_size self]"
    if "shape past \<noteq> [0]"
  proof -
    note c = torch_cat_shape[OF assms(3) that]
    have "shape layer = ((shape past)[2 := 0])[2 := shape past ! 2 + s]"
      using c(2) ks(2) by simp
    also have "(shape past)[2 := 0] = [b, num_attention_heads self, 0, attention_head_size self]"
      using c(3) ks(2) by simp
    finally show ?thesis by simp
  qed
  then show ?thesis using ks by blast
qed

text \<open>
  Claim C6. Whenever lines 68 to 95 of \<open>forward\<close> complete: with encoder hidden states and
  no cached pair, the key layer is \<open>transpose_for_scores\<close> of the base key projection of the
  encoder hidden states, the value layer is \<open>transpose_for_scores\<close> of \<open>lora_value\<close> of the
  encoder hidden states, and the mask in use is the encoder attention mask. Without encoder
  hidden states and with a cached pair, the base key projection and \<open>lora_value\<close> of the
  current hidden states are brought into the layout (batch, heads, sequence, head size) and
  each is appended to the cached tensor by \<^verbatim>\<open>torch.cat\<close> at axis 2, the attention mask stays
  as given, the hidden states have the axes (batch, sequence, hidden), and the sequence axis
  of each result is as long as the cached tensor's and the current sequence together.
\<close>

theorem forward_key_value_sources:
  "(forward_qkv self hidden_states attention_mask (Some enc) encoder_attention_mask None =
      Inr (query_layer, key_layer, value_layer, out_mask) \<longrightarrow>
      (\<exists>k v. linear_forward (key self) enc = Inr k
             \<and> transpose_for_scores self k = Inr key_layer
             \<and> lora_value self enc = Inr v
             \<and> transpose_for_scores self v = Inr value_layer)
      \<and> out_mask = encoder_attention_mask)
   \<and> (forward_qkv self hidden_states attention_mask None encoder_attention_mask
        (Some (past_key, past_value)) = Inr (query_layer, key_layer, value_layer, out_mask) \<longrightarrow>
      (\<exists>k k' v v' b s. linear_forward (key self) hidden_states = Inr k
             \<and> transpose_for_scores self k = Inr k'
             \<and> torch_cat past_key k' 2 = Inr key_layer
             \<and> lora_value self hidden_states = Inr v
             \<and> transpose_for_scores self v = Inr v'
             \<and> torch_cat past_value v' 2 = Inr value_layer
             \<and> butlast (shape hidden_states) = [b, s]
             \<and> shape k' = [b, num_attention_heads self, s, attention_head_size self]
             \<and> shape v' = [b, num_attention_heads self, s, attention_head_size self]
             \<and> (shape past_key \<noteq> [0] \<longrightarrow>
                   shape key_layer =
                     [b, num_attention_heads self, shape past_key ! 2 + s, attention_head_size self])
             \<and> (shape past_value \<noteq> [0] \<longrightarrow>
                   shape value_layer =
                     [b, num_attention_heads self, shape past_value ! 2 + s, attention_head_size self]))
      \<and> out_mask = attention_mask)"
proof (rule conjI; rule impI)
  assume "forward_qkv self hidden_states attention_mask (Some enc) encoder_attention_mask None =
      Inr (query_layer, key_layer, value_layer, out_mask)"
  then show "(\<exists>k v. linear_forward (key self) enc = Inr k
             \<and> transpose_for_scores self k = Inr key_layer
             \<and> lora_value self enc = Inr v
             \<and> transpose_for_scores self v = Inr value_layer)
      \<and> out_mask = encoder_attention_mask"
    by (auto simp: forward_qkv_def and_then_Inr)
next
  assume a: "forward_qkv self hidden_states attention_mask None encoder_attention_mask
        (Some (past_key, past_value)) = Inr (query_layer, key_layer, value_layer, out_mask)"
  then obtain k k' v v' where s:
    "linear_forward (key self) hidden_states = Inr k" "transpose_for_scores self k = Inr k'"
    "torch_cat past_key k' 2 = Inr key_layer"
    "lora_value self hidden_states = Inr v" "transpose_for_scores self v = Inr v'"
    "torch_cat past_value v' 2 = Inr value_layer" and m: "out_mask = attention_mask"
    by (auto simp: forward_qkv_def and_then_Inr)
  obtain b s where ks: "butlast (shape hidden_states) = [b, s]"
    "shape k' = [b, num_attention_heads self, s, attention_head_size self]"
    "shape past_key \<noteq> [0] \<longrightarrow> shape key_layer =
       [b, num_attention_heads self, shape past_key ! 2 + s, attention_head_size self]"
    using cached_layer_shape[OF disjI1, OF s(1) s(2) s(3)] by blast
  obtain b' s' where vs: "butlast (shape hidden_states) = [b', s']"
    "shape v' = [b', num_attention_heads self, s', attention_head_size self]"
    "shape past_value \<noteq> [0] \<longrightarrow> shape value_layer =
       [b', num_attention_heads self, shape past_value ! 2 + s', attention_head_size self]"
    using cached_layer_shape[OF disjI2, OF s(4) s(5) s(6)] by blast
  have same: "b' = b" "s' = s" using ks(1) vs(1) by simp_all
  show "(\<exists>k k' v v' b s. linear_forward (key self) hidden_states = Inr k
             \<and> transpose_for_scores self k = Inr k'
             \<and> torch_cat past_key k' 2 = Inr key_layer
             \<and> lora_value self hidden_states = Inr v
             \<and> transpose_for_scores self v = Inr v'
             \<and> torch_cat past_value v' 2 = Inr value_layer
             \<and> butlast (shape hidden_states) = [b, s]
             \<and> shape k' = [b, num_attention_heads self, s, attention_head_size self]
             \<and> shape v' = [b, num_attention_heads self, s, attention_head_size self]
             \<and> (shape past_key \<noteq> [0] \<longrightarrow>
                   shape key_layer =
                     [b, num_attention_heads self, shape past_key ! 2 + s, attention_head_size self])
             \<and> (shape past_value \<noteq> [0] \<longrightarrow>
                   shape value_layer =
                     [b, num_attention_heads self, shape past_value ! 2 + s, attention_head_size self]))
      \<and> out_mask = attention_mask"
    using s m ks vs[unfolded same] by blast
qed


lemma example_forward_cross:
  "forward_qkv example_lora (Tensor [1, 1, 2] [1, 1]) None (Some (Tensor [1, 2, 2] [1, 1, 0, 1]))
     (Some (Tensor [1] [7])) None =
   Inr (Tensor [1, 1, 1, 2] [8, 13], Tensor [1, 1, 2, 2] [8, 13, 7, 10],
        Tensor [1, 1, 2, 2] [8, 13, 7, 10], Some (Tensor [1] [7]))"
  by code_simp

lemma example_forward_cache:
  "forward_qkv example_lora (Tensor [1, 1, 2] [1, 1]) (Some (Tensor [1] [9])) None None
     (Some (Tensor [1, 1, 1, 2] [0, 1], Tensor [1, 1, 1, 2] [2, 3])) =
   Inr (Tensor [1, 1, 1, 2] [8, 13], Tensor [1, 1, 2, 2] [0, 1, 8, 13],
        Tensor [1, 1, 2, 2] [2, 3, 8, 13], Some (Tensor [1] [9]))"
  by code_simp

theorem forward_key_value_sources_witness:
  "forward_qkv example_lora (Tensor [1, 1, 2] [1, 1]) None (Some (Tensor [1, 2, 2] [1, 1, 0, 1]))
     (Some (Tensor [1] [7])) None =
   Inr (Tensor [1, 1, 1, 2] [8, 13], Tensor [1, 1, 2, 2] [8, 13, 7, 10],
        Tensor [1, 1, 2, 2] [8, 13, 7, 10], Some (Tensor [1] [7]))
   \<and> (\<exists>k v. linear_forward (key example_lora) (Tensor [1, 2, 2] [1, 1, 0, 1]) = Inr k
          \<and> transpose_for_scores example_lora k = Inr (Tensor [1, 1, 2, 2] [8, 13, 7, 10])
          \<and> lora_value example_lora (Tensor [1, 2, 2] [1, 1, 0, 1]) = Inr v
          \<and> transpose_for_scores example_lora v = Inr (Tensor [1, 1, 2, 2] [8, 13, 7, 10]))
   \<and> forward_qkv example_lora (Tensor [1, 1, 2] [1, 1]) (Some (Tensor [1] [9])) None None
     (Some (Tensor [1, 1, 1, 2] [0, 1], Tensor [1, 1, 1, 2] [2, 3])) =
   Inr (Tensor [1, 1, 1, 2] [8, 13], Tensor [1, 1, 2, 2] [0, 1, 8, 13],
        Tensor [1, 1, 2, 2] [2, 3, 8, 13], Some (Tensor [1] [9]))
   \<and> shape (Tensor [1, 1, 1, 2] [0, 1]) \<noteq> [0]
   \<and> (\<exists>k k'. linear_forward (key example_lora) (Tensor [1, 1, 2] [1, 1]) = Inr k
          \<and> transpose_for_scores example_lora k = Inr k'
          \<and> torch_cat (Tensor [1, 1, 1, 2] [0, 1]) k' 2 = Inr (Tensor [1, 1, 2, 2] [0, 1, 8, 13]))
   \<and> (\<exists>v v'. lora_value example_lora (Tensor [1, 1, 2] [1, 1]) = Inr v
          \<and> transpose_for_scores example_lora v = Inr v'
          \<and> torch_cat (Tensor [1, 1, 1, 2] [2, 3]) v' 2 = Inr (Tensor [1, 1, 2, 2] [2, 3, 8, 13]))"
proof -
  note t = forward_key_value_sources[of example_lora "Tensor [1, 1, 2] [1, 1]"]
  have 1: "\<exists>k v. linear_forward (key example_lora) (Tensor [1, 2, 2] [1, 1, 0, 1]) = Inr k
          \<and> transpose_for_scores example_lora k = Inr (Tensor [1, 1, 2, 2] [8, 13, 7, 10])
          \<and> lora_value example_lora (Tensor [1, 2, 2] [1, 1, 0, 1]) = Inr v
          \<and> transpose_for_scores example_lora v = Inr (Tensor [1, 1, 2, 2] [8, 13, 7, 10])"
    using t[THEN conjunct1, rule_format, OF example_forward_cross] by blast
  note c = t[THEN conjunct2, rule_format, OF example_forward_cache]
  have 2: "\<exists>k k'. linear_forward (key example_lora) (Tensor [1, 1, 2] [1, 1]) = Inr k
          \<and> transpose_for_scores example_lora k = Inr k'
          \<and> torch_cat (Tensor [1, 1, 1, 2] [0, 1]) k' 2 = Inr (Tensor [1, 1, 2, 2] [0, 1, 8, 13])"
    using c by blast
  have 3: "\<exists>v v'. lora_value example_lora (Tensor [1, 1, 2] [1, 1]) = Inr v
          \<and> transpose_for_scores example_lora v = Inr v'
          \<and> torch_cat (Tensor [1, 1, 1, 2] [2, 3]) v' 2 = Inr (Tensor [1, 1, 2, 2] [2, 3, 8, 13])"
    using c by blast
  show ?thesis
    using example_forward_cross example_forward_cache 1 2 3 by simp
qed

section \<open>Replacement of the attention modules\<close>

lemma cls_map_named_pre [simp]: "cls (map_named_pre g pre m) = cls m"
  by (cases m) simp

lemma list_ex_map_cong:
  "(\<And>x. x \<in> set xs \<Longrightarrow> P (f x) = Q x) \<Longrightarrow> list_ex P (map f xs) = list_ex Q xs"
  by (induction xs) simp_all

lemma unadapted_below_map_named_pre [simp]:
  "unadapted_below (map_named_pre g pre m) = unadapted_below m"
proof (induction g pre m rule: map_named_pre.induct)
  case (1 g pre c ps cs)
  have "list_ex (\<lambda>(n, m). cls m = RobertaSelfAttention \<or> unadapted_below m)
          (map (\<lambda>(n, m). (n, map_named_pre g (pre @ n @ ''.'') m)) cs) =
        list_ex (\<lambda>(n, m). cls m = RobertaSelfAttention \<or> unadapted_below m) cs"
  proof (rule list_ex_map_cong)
    fix x assume x: "x \<in> set cs"
    obtain n m where nm: "x = (n, m)" by (cases x)
    have "unadapted_below (map_named_pre g (pre @ n @ ''.'') m) = unadapted_below m"
      using 1[OF x] nm by auto
    then show "(case (case x of (n, m) \<Rightarrow> (n, map_named_pre g (pre @ n @ ''.'') m)) of
                  (n, m) \<Rightarrow> cls m = RobertaSelfAttention \<or> unadapted_below m) =
               (case x of (n, m) \<Rightarrow> cls m = RobertaSelfAttention \<or> unadapted_below m)"
      using nm by simp
  qed
  then show ?case by simp
qed

lemma no_attention_in_leaves:
  "\<not> list_ex (\<lambda>(n, m). cls m = RobertaSelfAttention \<or> unadapted_below m)
       (map (\<lambda>(n, ps). (n, module_of_leaf ps)) xs)"
  by (induction xs) (auto simp: module_of_leaf_def)

lemma unadapted_below_module_of [simp]: "\<not> unadapted_below (module_of a)"
  using no_attention_in_leaves[of "leaf_children a"]
  by (simp add: module_of_def module_of_linear_def)

lemma map_of_map_keyed:
  "map_of (map (\<lambda>(n, p). (n, f n p)) xs) k = map_option (f k) (map_of xs k)"
  by (induction xs) auto

lemma state_dict_loaded:
  "state_dict (map_named_pre g [] m) = map (\<lambda>(n, p). (n, data (g n p))) (named_parameters m)"
  by (simp add: state_dict_def named_parameters_def named_parameters_map_named comp_def
      case_prod_unfold)

lemma replace_one_result:
  assumes "replace_one lib self submodule = Inr new_layer"
  shows "cls new_layer = LoraRobertaSelfAttention" "\<not> unadapted_below new_layer"
    "carries_over submodule new_layer"
proof -
  let ?old = "state_dict submodule"
  let ?g = "\<lambda>n p. case map_of ?old n of None \<Rightarrow> p | Some t \<Rightarrow> p\<lparr>data := t\<rparr>"
  obtain a where new: "new_layer = map_named_pre ?g [] (module_of a)"
    and keys: "set (map fst ?old) =
               set (filter (\<lambda>k. \<not> startswith k ''lora_'') (map fst (state_dict new_layer)))"
    using assms
    by (auto simp: replace_one_def and_then_Inr load_state_dict_def Let_def split: if_splits)
  show "cls new_layer = LoraRobertaSelfAttention"
    by (simp add: new module_of_def)
  show "\<not> unadapted_below new_layer"
    by (simp add: new)
  have sd: "state_dict new_layer =
      map (\<lambda>(n, p). (n, data (?g n p))) (named_parameters (module_of a))"
    unfolding new by (rule state_dict_loaded)
  have 1: "map_of (state_dict new_layer) k = map_of ?old k" if k: "k \<in> set (map fst ?old)" for k
  proof -
    obtain t where t: "map_of ?old k = Some t"
      using k by (metis map_of_eq_None_iff not_Some_eq set_map)
    have "k \<in> set (map fst (state_dict new_layer))"
      using k keys by auto
    then have "k \<in> fst ` set (named_parameters (module_of a))"
      unfolding sd by (auto simp: case_prod_unfold)
    then obtain p where p: "map_of (named_parameters (module_of a)) k = Some p"
      by (metis map_of_eq_None_iff not_Some_eq)
    show ?thesis
      unfolding sd map_of_map_keyed using p t by simp
  qed
  have 2: "k \<in> set (map fst ?old) \<or> startswith k ''lora_''"
    if "k \<in> set (map fst (state_dict new_layer))" for k
    using that keys by auto
  have 3: "\<not> startswith k ''lora_''" if "k \<in> set (map fst ?old)" for k
    using that keys by auto
  show "carries_over submodule new_layer"
    unfolding carries_over_def list_all_iff using 1 2 3 by blast
qed

lemma replaced_in_cls: "replaced_in m m' \<Longrightarrow> cls m' = cls m"
  by (cases m; cases m') simp

lemma replace_sound:
  "(\<forall>self' m'. replace_multihead_attention_recursion lib self m = Inr (self', m') \<longrightarrow>
      replaced_in m m' \<and> \<not> unadapted_below m'
      \<and> self' = self\<lparr>nr_replaced_modules := nr_replaced_modules self + attention_layers m\<rparr>)"
  "(\<forall>self' cs'. replace_children lib self cs = Inr (self', cs') \<longrightarrow>
      list_all2 (\<lambda>(n, m) (n', m'). n' = n \<and>
         (if isinstance_RobertaSelfAttention (cls m)
          then cls m' = LoraRobertaSelfAttention \<and> carries_over m m'
          else replaced_in m m')) cs cs'
      \<and> \<not> list_ex (\<lambda>(n, m). cls m = RobertaSelfAttention \<or> unadapted_below m) cs'
      \<and> self' = self\<lparr>nr_replaced_modules := nr_replaced_modules self +
           sum_list (map (\<lambda>(n, m). if isinstance_RobertaSelfAttention (cls m) then 1
                                    else attention_layers m) cs)\<rparr>)"
proof (induction lib self m and lib self cs
    rule: replace_multihead_attention_recursion_replace_children.induct)
  case (1 lib self c ps cs)
  then show ?case
    by (auto simp: and_then_Inr)
next
  case (2 lib self)
  then show ?case by simp
next
  case (3 lib self name submodule rest)
  show ?case
  proof (cases "isinstance_RobertaSelfAttention (cls submodule)")
    case True
    let ?self1 = "self\<lparr>nr_replaced_modules := nr_replaced_modules self + 1\<rparr>"
    note ih = 3(1)[OF True refl]
    show ?thesis
    proof (intro allI impI)
      fix self' cs'
      assume "replace_children lib self ((name, submodule) # rest) = Inr (self', cs')"
      then obtain new_layer rest' where
        one: "replace_one lib ?self1 submodule = Inr new_layer" and
        rest: "replace_children lib ?self1 rest = Inr (self', rest')" and
        cs': "cs' = (name, new_layer) # rest'"
        using True by (auto simp: and_then_Inr Let_def)
      note r = replace_one_result[OF one]
      show "list_all2 (\<lambda>(n, m) (n', m'). n' = n \<and>
         (if isinstance_RobertaSelfAttention (cls m)
          then cls m' = LoraRobertaSelfAttention \<and> carries_over m m'
          else replaced_in m m')) ((name, submodule) # rest) cs'
      \<and> \<not> list_ex (\<lambda>(n, m). cls m = RobertaSelfAttention \<or> unadapted_below m) cs'
      \<and> self' = self\<lparr>nr_replaced_modules := nr_replaced_modules self +
           sum_list (map (\<lambda>(n, m). if isinstance_RobertaSelfAttention (cls m) then 1
                                    else attention_layers m) ((name, submodule) # rest))\<rparr>"
        using ih rest cs' r True by (simp add: add.assoc)
    qed
  next
    case False
    note ihm = 3(2)[OF False]
    show ?thesis
    proof (intro allI impI)
      fix self' cs'
      assume "replace_children lib self ((name, submodule) # rest) = Inr (self', cs')"
      then obtain self1 module' rest' where
        sub: "replace_multihead_attention_recursion lib self submodule = Inr (self1, module')" and
        rest: "replace_children lib self1 rest = Inr (self', rest')" and
        cs': "cs' = (name, module') # rest'"
        using False by (auto simp: and_then_Inr)
      note ihr = 3(3)[OF False, of self1]
      have m: "replaced_in submodule module'" "\<not> unadapted_below module'"
        "self1 = self\<lparr>nr_replaced_modules := nr_replaced_modules self + attention_layers submodule\<rparr>"
        using ihm sub by auto
      have c: "cls module' \<noteq> RobertaSelfAttention"
        using replaced_in_cls[OF m(1)] False by (auto simp: isinstance_RobertaSelfAttention_def)
      show "list_all2 (\<lambda>(n, m) (n', m'). n' = n \<and>
         (if isinstance_RobertaSelfAttention (cls m)
          then cls m' = LoraRobertaSelfAttention \<and> carries_over m m'
          else replaced_in m m')) ((name, submodule) # rest) cs'
      \<and> \<not> list_ex (\<lambda>(n, m). cls m = RobertaSelfAttention \<or> unadapted_below m) cs'
      \<and> self' = self\<lparr>nr_replaced_modules := nr_replaced_modules self +
           sum_list (map (\<lambda>(n, m). if isinstance_RobertaSelfAttention (cls m) then 1
                                    else attention_layers m) ((name, submodule) # rest))\<rparr>"
        using ihr rest cs' m c False by (simp add: add.assoc)
    qed
  qed
qed

lemma replace_multihead_attention_result:
  assumes "replace_multihead_attention lib self = Inr self'"
  shows "replaced_in (model self) (model self')
       \<and> \<not> unadapted_below (model self')
       \<and> nr_replaced_modules self' = attention_layers (model self)
       \<and> self' = self\<lparr>model := model self', nr_replaced_modules := nr_replaced_modules self'\<rparr>"
proof -
  let ?self0 = "self\<lparr>nr_replaced_modules := 0\<rparr>"
  obtain self1 m where r: "replace_multihead_attention_recursion lib ?self0 (model self) = Inr (self1, m)"
    and s: "self' = self1\<lparr>model := m\<rparr>"
    using assms by (auto simp: replace_multihead_attention_def and_then_Inr Let_def)
  have "replaced_in (model self) m" "\<not> unadapted_below m"
    "self1 = ?self0\<lparr>nr_replaced_modules := nr_replaced_modules ?self0 + attention_layers (model self)\<rparr>"
    using replace_sound(1)[of lib ?self0 "model self"] r by auto
  then show ?thesis
    using s by simp
qed

text \<open>
  Claim C5, as amended. When \<open>replace_multihead_attention\<close> completes on a wrapper: below
  the root, exactly the modules that are instances of the base attention class and lie in no
  other such instance have been replaced, each by an adapted module whose state dict holds
  every tensor of the original under its key and beyond these only keys that begin with
  \<^verbatim>\<open>lora_\<close>; every other module keeps its name, class and own parameters, and its children
  have been treated in the same way, while the children of a replaced module have not been
  visited. No module of class \<open>RobertaSelfAttention\<close> is left below the root, the counter
  equals the number of those attention modules, and no other attribute of the wrapper has
  changed. A replaced module had no key beginning with \<^verbatim>\<open>lora_\<close>: the traversal does not
  leave an adapted module alone, it fails on it.
\<close>

theorem replacement_complete:
  assumes "replace_multihead_attention lib self = Inr self'"
  shows "replaced_in (model self) (model self')
       \<and> \<not> unadapted_below (model self')
       \<and> nr_replaced_modules self' = attention_layers (model self)
       \<and> self' = self\<lparr>model := model self', nr_replaced_modules := nr_replaced_modules self'\<rparr>"
  using replace_multihead_attention_result[OF assms] .

lemma example_replacement:
  "replace_multihead_attention example_lib example_wrapper =
     Inr (example_wrapper\<lparr>model := example_adapted_model, nr_replaced_modules := 1\<rparr>)"
  by code_simp

theorem replacement_complete_witness:
  "replace_multihead_attention example_lib example_wrapper =
     Inr (example_wrapper\<lparr>model := example_adapted_model, nr_replaced_modules := 1\<rparr>)
   \<and> replaced_in example_model example_adapted_model
   \<and> \<not> unadapted_below example_adapted_model
   \<and> attention_layers example_model = 1"
  using replacement_complete[OF example_replacement] example_replacement
  by (simp add: example_wrapper_def)

text \<open>
  The claim as it was stated lets the traversal pass over modules that are adapted already.
  The adapted class is a subclass of the base class, so \<^verbatim>\<open>isinstance\<close> holds for them as
  well: run on the wrapper whose model has been adapted before, the replacement treats the
  adapted module like any other and ends in the \<open>AssertionError\<close> of the integrity check.
\<close>

theorem adapted_module_counterexample:
  "cls (module_of example_lora) = LoraRobertaSelfAttention
   \<and> replace_multihead_attention example_lib (example_wrapper\<lparr>model := example_adapted_model\<rparr>) =
      Inl (AssertionError
             (set [''lora_query_matrix_B'', ''lora_query_matrix_A'', ''lora_value_matrix_B'',
                   ''lora_value_matrix_A'', ''query.weight'', ''query.bias'', ''key.weight'',
                   ''key.bias'', ''value.weight'', ''value.bias''])
             (set [''query.weight'', ''query.bias'', ''key.weight'', ''key.bias'',
                   ''value.weight'', ''value.bias'']))"
  by code_simp

section \<open>The integrity check of a replacement\<close>

lemma replace_one_keys:
  "replace_one lib self submodule = Inr new_layer \<Longrightarrow>
     set (map fst (state_dict submodule)) =
     set (filter (\<lambda>k. \<not> startswith k ''lora_'') (map fst (state_dict new_layer)))"
  by (auto simp: replace_one_def and_then_Inr Let_def split: if_splits)

text \<open>
  Whether a replacement raises, and with which exception, does not depend on the counter: the
  counter only selects the draws of \<^verbatim>\<open>torch.randn\<close>, which change the values of the adapter
  matrices but neither a name nor a shape.
\<close>

lemma load_state_dict_skeleton:
  assumes "skeleton m1 = skeleton m2"
  shows "(load_state_dict m1 sd = Inl e) = (load_state_dict m2 sd = Inl e)"
    "load_state_dict m1 sd = Inr n1 \<Longrightarrow> load_state_dict m2 sd = Inr n2 \<Longrightarrow>
       map fst (state_dict n1) = map fst (state_dict n2)"
proof -
  let ?C = "\<lambda>(n, s). case map_of sd n of None \<Rightarrow> False | Some t \<Rightarrow> shape t \<noteq> s"
  have c: "list_ex (\<lambda>(n, p). case map_of sd n of None \<Rightarrow> False
                                             | Some t \<Rightarrow> shape t \<noteq> shape (data p))
                 (named_parameters m) = list_ex ?C (skeleton m)" for m
    by (simp add: skeleton_def list_ex_iff case_prod_unfold cong: option.case_cong)
  show "(load_state_dict m1 sd = Inl e) = (load_state_dict m2 sd = Inl e)"
    unfolding load_state_dict_def c assms by simp
  have k: "map fst (state_dict (map_named_pre g [] m)) = map fst (skeleton m)" for g m
    by (simp add: state_dict_loaded skeleton_def comp_def case_prod_unfold)
  show "map fst (state_dict n1) = map fst (state_dict n2)"
    if "load_state_dict m1 sd = Inr n1" "load_state_dict m2 sd = Inr n2"
    using that k assms by (auto simp: load_state_dict_def split: if_splits)
qed

lemma init_skeleton:
  "(LoraRobertaSelfAttention_init base_init r config n1 n2 = Inl e) =
   (LoraRobertaSelfAttention_init base_init r config n3 n4 = Inl e)"
  "LoraRobertaSelfAttention_init base_init r config n1 n2 = Inr a1 \<Longrightarrow>
   LoraRobertaSelfAttention_init base_init r config n3 n4 = Inr a2 \<Longrightarrow>
     skeleton (module_of a1) = skeleton (module_of a2)"
  by (auto simp: LoraRobertaSelfAttention_init_def and_then_def torch_zeros_def torch_randn_def
      Let_def skeleton_def named_parameters_def module_of_def as_tensor_def fresh_param_def
      split: sum.splits if_splits)

lemma replace_one_counter_Inl:
  "(replace_one lib (self\<lparr>nr_replaced_modules := n\<rparr>) submodule = Inl e) =
   (replace_one lib self submodule = Inl e)"
proof -
  let ?i1 = "LoraRobertaSelfAttention_init (RobertaSelfAttention_init lib) (lora_rank self)
      (model_config self) (randn_noise lib (2 * n)) (randn_noise lib (2 * n + 1))"
  note sw = init_skeleton(1)[where base_init = "RobertaSelfAttention_init lib"
      and r = "lora_rank self" and config = "model_config self"
      and ?n1.0 = "randn_noise lib (2 * n)" and ?n2.0 = "randn_noise lib (2 * n + 1)"
      and ?n3.0 = "randn_noise lib (2 * nr_replaced_modules self)"
      and ?n4.0 = "randn_noise lib (2 * nr_replaced_modules self + 1)"]
  let ?i2 = "LoraRobertaSelfAttention_init (RobertaSelfAttention_init lib) (lora_rank self)
      (model_config self) (randn_noise lib (2 * nr_replaced_modules self))
      (randn_noise lib (2 * nr_replaced_modules self + 1))"
  show ?thesis
  proof (cases ?i1)
    case (Inl e1)
    then have "?i2 = Inl e1" using sw[where e = e1] by simp
    then show ?thesis using Inl by (simp add: replace_one_def and_then_def)
  next
    case i1: (Inr a1)
    show ?thesis
    proof (cases ?i2)
      case (Inl e2)
      then have "?i1 = Inl e2" using sw[where e = e2] by simp
      then show ?thesis using i1 by simp
    next
      case i2: (Inr a2)
      note sk = init_skeleton(2)[OF i1 i2]
      show ?thesis
      proof (cases "load_state_dict (module_of a1) (state_dict submodule)")
        case (Inl e1)
        then have "load_state_dict (module_of a2) (state_dict submodule) = Inl e1"
          using load_state_dict_skeleton(1)[OF sk, where e = e1
              and sd = "state_dict submodule"] by simp
        then show ?thesis using Inl i1 i2 by (simp add: replace_one_def and_then_def)
      next
        case l1: (Inr n1)
        show ?thesis
        proof (cases "load_state_dict (module_of a2) (state_dict submodule)")
          case (Inl e2)
          then have "load_state_dict (module_of a1) (state_dict submodule) = Inl e2"
            using load_state_dict_skeleton(1)[OF sk, where e = e2
                and sd = "state_dict submodule"] by simp
          then show ?thesis using l1 by simp
        next
          case l2: (Inr n2)
          have keq: "map fst (state_dict n1) = map fst (state_dict n2)"
            using load_state_dict_skeleton(2)[OF sk l1 l2] .
          let ?old = "set (map fst (state_dict submodule))"
          let ?new = "\<lambda>m. set (filter (\<lambda>k. \<not> startswith k ''lora_'') (map fst (state_dict m)))"
          have r1: "replace_one lib (self\<lparr>nr_replaced_modules := n\<rparr>) submodule =
                      (if ?old = ?new n1 then Inr n1 else Inl (AssertionError ?old (?new n1)))"
            using i1 l1 by (simp add: replace_one_def and_then_def Let_def)
          have r2: "replace_one lib self submodule =
                      (if ?old = ?new n2 then Inr n2 else Inl (AssertionError ?old (?new n2)))"
            using i2 l2 by (simp add: replace_one_def and_then_def Let_def)
          show ?thesis
            unfolding r1 r2 keq by (cases "?old = ?new n2") simp_all
        qed
      qed
    qed
  qed
qed

lemma replace_one_counter_Inr:
  "(\<exists>new. replace_one lib (self\<lparr>nr_replaced_modules := n\<rparr>) submodule = Inr new) =
   (\<exists>new. replace_one lib self submodule = Inr new)"
proof -
  have "(\<exists>new. r = Inr new) = (\<forall>e. r \<noteq> Inl e)" for r :: "error + module"
    by (cases r) simp_all
  then show ?thesis
    using replace_one_counter_Inl[where lib = lib and self = self and n = n
        and submodule = submodule] by simp
qed

text \<open>
  The traversal ends with the exception of the first attention module whose replacement
  raises, and returns if there is none.
\<close>

lemma raised_simps:
  "raised (Inl e) = Some e" "raised (Inr v) = None"
  by (simp_all add: raised_def)

lemma raised_Some: "(raised r = Some e) = (r = Inl e)"
  by (cases r) (simp_all add: raised_def)

lemma raised_None: "(raised r = None) = (\<exists>v. r = Inr v)"
  by (cases r) (simp_all add: raised_def)

lemma first_failure_append:
  "first_failure f (xs @ ys) =
     (case first_failure f xs of Some e \<Rightarrow> Some e | None \<Rightarrow> first_failure f ys)"
  by (induction xs) (simp_all split: option.splits)

lemma raised_replace_one_counter:
  "raised (replace_one lib (self\<lparr>nr_replaced_modules := n\<rparr>) submodule) =
   raised (replace_one lib self submodule)"
proof (cases "replace_one lib self submodule")
  case (Inl e)
  then show ?thesis
    using replace_one_counter_Inl[where lib = lib and self = self and n = n
        and submodule = submodule and e = e]
    by (simp add: raised_simps)
next
  case (Inr new)
  then obtain new' where "replace_one lib (self\<lparr>nr_replaced_modules := n\<rparr>) submodule = Inr new'"
    using replace_one_counter_Inr[where lib = lib and self = self and n = n
        and submodule = submodule] by auto
  then show ?thesis using Inr by (simp add: raised_simps)
qed

lemma first_failure_counter:
  "first_failure (replace_one lib (self\<lparr>nr_replaced_modules := n\<rparr>)) xs =
   first_failure (replace_one lib self) xs"
  by (induction xs) (simp_all add: raised_replace_one_counter cong: option.case_cong)

lemma replace_first_failure:
  "raised (replace_multihead_attention_recursion lib self m) =
     first_failure (replace_one lib self) (attention_modules m)"
  "raised (replace_children lib self cs) =
     first_failure (replace_one lib self)
       (concat (map (\<lambda>(n, m). if isinstance_RobertaSelfAttention (cls m) then [m]
                               else attention_modules m) cs))"
proof (induction lib self m and lib self cs
    rule: replace_multihead_attention_recursion_replace_children.induct)
  case (1 lib self c ps cs)
  have "raised (replace_multihead_attention_recursion lib self (Module c ps cs)) =
          raised (replace_children lib self cs)"
    by (cases "replace_children lib self cs") (auto simp: and_then_def raised_simps)
  then show ?case using 1 by simp
next
  case (2 lib self)
  then show ?case by (simp add: raised_simps)
next
  case (3 lib self name submodule rest)
  let ?mods = "\<lambda>cs. concat (map (\<lambda>(n, m). if isinstance_RobertaSelfAttention (cls m) then [m]
                                      else attention_modules m) cs)"
  let ?f = "replace_one lib self"
  show ?case
  proof (cases "isinstance_RobertaSelfAttention (cls submodule)")
    case True
    let ?self1 = "self\<lparr>nr_replaced_modules := nr_replaced_modules self + 1\<rparr>"
    have ih: "raised (replace_children lib ?self1 rest) = first_failure ?f (?mods rest)"
      using 3(1)[OF True refl] by (simp only: first_failure_counter)
    have mods: "?mods ((name, submodule) # rest) = submodule # ?mods rest"
      using True by simp
    have head: "raised (?f submodule) = raised (replace_one lib ?self1 submodule)"
      by (simp only: raised_replace_one_counter)
    show ?thesis
    proof (cases "replace_one lib ?self1 submodule")
      case (Inl e)
      then have "raised (replace_children lib self ((name, submodule) # rest)) = Some e"
        using True by (simp add: and_then_def Let_def raised_simps)
      moreover have "raised (?f submodule) = Some e"
        using head Inl by (simp add: raised_simps)
      ultimately show ?thesis
        unfolding mods by simp
    next
      case (Inr new_layer)
      have "raised (replace_children lib self ((name, submodule) # rest)) =
              raised (replace_children lib ?self1 rest)"
        using True Inr
        by (cases "replace_children lib ?self1 rest") (auto simp: and_then_def Let_def raised_simps)
      moreover have "raised (?f submodule) = None"
        using head Inr by (simp add: raised_simps)
      ultimately show ?thesis
        unfolding mods using ih by simp
    qed
  next
    case False
    have mods: "?mods ((name, submodule) # rest) = attention_modules submodule @ ?mods rest"
      using False by simp
    note ihm = 3(2)[OF False]
    show ?thesis
    proof (cases "replace_multihead_attention_recursion lib self submodule")
      case (Inl e)
      then have "raised (replace_children lib self ((name, submodule) # rest)) = Some e"
        using False by (simp add: and_then_def raised_simps)
      moreover have "first_failure ?f (attention_modules submodule) = Some e"
        using ihm Inl by (simp add: raised_simps)
      ultimately show ?thesis
        unfolding mods first_failure_append by simp
    next
      case (Inr p)
      obtain self1 module' where p: "p = (self1, module')" by (cases p)
      have "self1 = self\<lparr>nr_replaced_modules := nr_replaced_modules self + attention_layers submodule\<rparr>"
        using replace_sound(1)[of lib self submodule] Inr p by blast
      then have ih: "raised (replace_children lib self1 rest) = first_failure ?f (?mods rest)"
        using 3(3)[OF False, of self1] by (simp only: first_failure_counter)
      have "raised (replace_children lib self ((name, submodule) # rest)) =
              raised (replace_children lib self1 rest)"
        using False Inr p
        by (cases "replace_children lib self1 rest") (auto simp: and_then_def raised_simps)
      moreover have "first_failure ?f (attention_modules submodule) = None"
        using ihm Inr by (simp add: raised_simps)
      ultimately show ?thesis
        unfolding mods first_failure_append using ih by simp
    qed
  qed
qed

lemma first_failure_None:
  "(first_failure f xs = None) = list_all (\<lambda>x. raised (f x) = None) xs"
  by (induction xs) (simp_all split: option.splits)

lemma replace_checked:
  assumes "replace_multihead_attention_recursion lib self m = Inr (self', m')"
  shows "list_all (\<lambda>sub. case replace_one lib self sub of
                            Inl e \<Rightarrow> False
                          | Inr new \<Rightarrow> set (map fst (state_dict sub)) =
                              set (filter (\<lambda>k. \<not> startswith k ''lora_'') (map fst (state_dict new))))
                  (attention_modules m)"
proof -
  have "first_failure (replace_one lib self) (attention_modules m) = None"
    using replace_first_failure(1)[of lib self m] assms by (simp add: raised_simps)
  then have "list_all (\<lambda>sub. raised (replace_one lib self sub) = None) (attention_modules m)"
    by (simp only: first_failure_None)
  moreover have "(case replace_one lib self sub of
                    Inl e \<Rightarrow> False
                  | Inr new \<Rightarrow> set (map fst (state_dict sub)) =
                      set (filter (\<lambda>k. \<not> startswith k ''lora_'') (map fst (state_dict new))))"
    if r: "raised (replace_one lib self sub) = None" for sub
  proof -
    obtain new where n: "replace_one lib self sub = Inr new"
      using r by (auto simp: raised_None)
    show ?thesis using replace_one_keys[OF n] n by simp
  qed
  ultimately show ?thesis
    unfolding list_all_iff by blast
qed

lemma replace_multihead_attention_failure:
  "(replace_multihead_attention lib self = Inl e) =
   (first_failure (replace_one lib self) (attention_modules (model self)) = Some e)"
proof -
  let ?self0 = "self\<lparr>nr_replaced_modules := 0\<rparr>"
  have "raised (replace_multihead_attention lib self) =
          raised (replace_multihead_attention_recursion lib ?self0 (model self))"
    by (cases "replace_multihead_attention_recursion lib ?self0 (model self)")
       (auto simp: replace_multihead_attention_def and_then_def Let_def raised_simps)
  also have "\<dots> = first_failure (replace_one lib self) (attention_modules (model self))"
    by (simp only: replace_first_failure(1) first_failure_counter)
  finally show ?thesis by (simp only: raised_Some[symmetric])
qed

text \<open>
  Claim C4. For one attention submodule, with the counter and the collaborators as they are:
  if the replacement is made, the set of keys of the old submodule's state dict equals the set
  of keys of the new adapted submodule's state dict without the keys that begin with
  \<^verbatim>\<open>lora_\<close>; if the adapted module has been built and loaded and the two sets differ, the
  replacement raises an \<open>AssertionError\<close> that carries both sets; and an exception of the
  replacement of a child ends the loop over the children with that exception, before any
  later child is looked at. The exception is handed on unchanged at every level: from the
  traversal of a child that is no attention module to the loop over its siblings, from the
  loop to \<open>replace_multihead_attention_recursion\<close>, from there to
  \<open>replace_multihead_attention\<close>, and from there to the constructor, which ends with it
  and leaves no object. Over the whole tree, the traversal and \<open>replace_multihead_attention\<close>
  end with an exception exactly if the replacement of some attention module raises, and then
  with the exception of the first such module in traversal order; and where the traversal
  returns, the two key sets are equal at every attention module of the tree.
\<close>

theorem integrity_check:
  "(replace_one lib self submodule = Inr new_layer \<longrightarrow>
      set (map fst (state_dict submodule)) =
      set (filter (\<lambda>k. \<not> startswith k ''lora_'') (map fst (state_dict new_layer))))
   \<and> (LoraRobertaSelfAttention_init (RobertaSelfAttention_init lib) (lora_rank self)
          (model_config self) (randn_noise lib (2 * nr_replaced_modules self))
          (randn_noise lib (2 * nr_replaced_modules self + 1)) = Inr new_attn
        \<and> load_state_dict (module_of new_attn) (state_dict submodule) = Inr loaded
        \<and> set (map fst (state_dict submodule)) \<noteq>
            set (filter (\<lambda>k. \<not> startswith k ''lora_'') (map fst (state_dict loaded)))
      \<longrightarrow> replace_one lib self submodule =
            Inl (AssertionError (set (map fst (state_dict submodule)))
                   (set (filter (\<lambda>k. \<not> startswith k ''lora_'') (map fst (state_dict loaded))))))
   \<and> (isinstance_RobertaSelfAttention (cls submodule)
        \<and> replace_one lib (self\<lparr>nr_replaced_modules := nr_replaced_modules self + 1\<rparr>) submodule = Inl e
      \<longrightarrow> replace_children lib self ((name, submodule) # rest) = Inl e)
   \<and> (\<not> isinstance_RobertaSelfAttention (cls submodule)
        \<and> replace_multihead_attention_recursion lib self submodule = Inl e
      \<longrightarrow> replace_children lib self ((name, submodule) # rest) = Inl e)
   \<and> (replace_children lib self cs = Inl e
      \<longrightarrow> replace_multihead_attention_recursion lib self (Module c ps cs) = Inl e)
   \<and> (replace_multihead_attention_recursion lib (self\<lparr>nr_replaced_modules := 0\<rparr>) (model self) = Inl e
      \<longrightarrow> replace_multihead_attention lib self = Inl e)
   \<and> (from_pretrained lib (arg_or ''roberta-base'' model_id) = Inr (m, config)
        \<and> replace_multihead_attention lib
            \<lparr>model = m, model_config = config, lora_rank = arg_or 8 rank,
             train_biases = arg_or True biases, train_embeddings = arg_or False embedding,
             train_layer_norms = arg_or True layer_norms, nr_replaced_modules = 0\<rparr> = Inl e
      \<longrightarrow> LoraWrapperRobertaHelper_init lib model_id rank biases embedding layer_norms =
            (Inl e, None))
   \<and> (replace_multihead_attention_recursion lib self m = Inl e) =
       (first_failure (replace_one lib self) (attention_modules m) = Some e)
   \<and> (replace_multihead_attention lib self = Inl e) =
       (first_failure (replace_one lib self) (attention_modules (model self)) = Some e)
   \<and> (replace_multihead_attention_recursion lib self m = Inr (self', m')
      \<longrightarrow> list_all (\<lambda>sub. case replace_one lib self sub of
                              Inl e \<Rightarrow> False
                            | Inr new \<Rightarrow> set (map fst (state_dict sub)) =
                                set (filter (\<lambda>k. \<not> startswith k ''lora_'')
                                       (map fst (state_dict new))))
                    (attention_modules m))"
  apply (intro conjI)
  subgoal by (auto simp: replace_one_def and_then_def Let_def split: sum.splits if_splits)
  subgoal by (auto simp: replace_one_def and_then_def Let_def split: sum.splits if_splits)
  subgoal by (simp add: and_then_def Let_def)
  subgoal by (simp add: and_then_def)
  subgoal by (simp add: and_then_def)
  subgoal by (simp add: replace_multihead_attention_def and_then_def Let_def)
  subgoal by (simp add: LoraWrapperRobertaHelper_init_def)
  subgoal by (simp only: replace_first_failure(1)[symmetric] raised_Some)
  subgoal by (rule replace_multihead_attention_failure)
  subgoal using replace_checked by blast
  done

text \<open>The concrete evaluations for the small models.\<close>

lemma example_replace_ok: "replace_one example_lib example_wrapper example_attention = Inr (module_of example_lora)"
    by code_simp
lemma example_replace_init: "LoraRobertaSelfAttention_init (RobertaSelfAttention_init example_lib)
      (lora_rank example_wrapper) (model_config example_wrapper)
      (randn_noise example_lib (2 * nr_replaced_modules example_wrapper))
      (randn_noise example_lib (2 * nr_replaced_modules example_wrapper + 1)) = Inr example_lora"
    by code_simp
lemma example_load: "load_state_dict (module_of example_lora) (state_dict example_mismatched) =
       Inr (module_of example_lora)"
    by code_simp
lemma example_mismatched_instance: "isinstance_RobertaSelfAttention (cls example_mismatched)"
    by code_simp
lemma example_keys_old: "map fst (state_dict example_mismatched) =
      [''query.weight'', ''query.bias'', ''key.weight'', ''key.bias'', ''value.weight'']"
    by code_simp
lemma example_keys_new: "filter (\<lambda>k. \<not> startswith k ''lora_'') (map fst (state_dict (module_of example_lora))) =
      [''query.weight'', ''query.bias'', ''key.weight'', ''key.bias'', ''value.weight'',
       ''value.bias'']"
    by code_simp
lemma example_replace_counter: "replace_one example_lib
      (example_wrapper\<lparr>nr_replaced_modules := nr_replaced_modules example_wrapper + 1\<rparr>)
      example_mismatched = replace_one example_lib example_wrapper example_mismatched"
    by code_simp

lemma example_key_in_new: "''value.bias'' \<in>
       set (filter (\<lambda>k. \<not> startswith k ''lora_'') (map fst (state_dict (module_of example_lora))))"
  unfolding example_keys_new by simp

lemma example_key_not_in_old: "''value.bias'' \<notin> set (map fst (state_dict example_mismatched))"
  unfolding example_keys_old by simp

lemma example_keys_differ: "set (map fst (state_dict example_mismatched)) \<noteq>
       set (filter (\<lambda>k. \<not> startswith k ''lora_'') (map fst (state_dict (module_of example_lora))))"
  using example_key_in_new example_key_not_in_old by metis

lemma example_mismatched_modules:
  "attention_modules example_mismatched_model = [example_mismatched]"
  by code_simp

lemma example_mismatched_same:
  "replace_one example_mismatched_lib example_mismatched_wrapper example_mismatched =
   replace_one example_lib example_wrapper example_mismatched"
  by (simp add: replace_one_def example_mismatched_lib_def example_lib_def
      example_mismatched_wrapper_def example_wrapper_def)

lemma example_mismatched_loaded:
  "from_pretrained example_mismatched_lib (arg_or ''roberta-base'' None) =
     Inr (example_mismatched_model, ())"
  by (simp add: example_mismatched_lib_def)

lemma example_mismatched_attributes:
  "\<lparr>model = example_mismatched_model, model_config = (), lora_rank = arg_or 8 (Some 1),
    train_biases = arg_or True None, train_embeddings = arg_or False None,
    train_layer_norms = arg_or True None, nr_replaced_modules = 0\<rparr> = example_mismatched_wrapper"
  "example_mismatched_wrapper\<lparr>nr_replaced_modules := 0\<rparr> = example_mismatched_wrapper"
  "model example_mismatched_wrapper = example_mismatched_model"
  by (simp_all add: example_mismatched_wrapper_def arg_or_def)

lemma example_recursion:
  "replace_multihead_attention_recursion example_lib example_wrapper example_model =
     Inr (example_wrapper\<lparr>nr_replaced_modules := 1\<rparr>, example_adapted_model)"
  by code_simp

theorem integrity_check_witness:
  "replace_one example_lib example_wrapper example_attention = Inr (module_of example_lora)
   \<and> set (map fst (state_dict example_attention)) =
       set (filter (\<lambda>k. \<not> startswith k ''lora_'') (map fst (state_dict (module_of example_lora))))
   \<and> load_state_dict (module_of example_lora) (state_dict example_mismatched) =
       Inr (module_of example_lora)
   \<and> set (map fst (state_dict example_mismatched)) \<noteq>
       set (filter (\<lambda>k. \<not> startswith k ''lora_'') (map fst (state_dict (module_of example_lora))))
   \<and> isinstance_RobertaSelfAttention (cls example_mismatched)
   \<and> replace_one example_lib example_wrapper example_mismatched =
       Inl (AssertionError
              (set [''query.weight'', ''query.bias'', ''key.weight'', ''key.bias'', ''value.weight''])
              (set [''query.weight'', ''query.bias'', ''key.weight'', ''key.bias'', ''value.weight'',
               ''value.bias'']))
   \<and> replace_children example_lib example_wrapper [(''self'', example_mismatched)] =
       Inl (AssertionError
              (set [''query.weight'', ''query.bias'', ''key.weight'', ''key.bias'', ''value.weight''])
              (set [''query.weight'', ''query.bias'', ''key.weight'', ''key.bias'', ''value.weight'',
               ''value.bias'']))
   \<and> replace_children example_mismatched_lib example_mismatched_wrapper
         [(''attention'', Module OtherModule [] [(''self'', example_mismatched)])] =
       Inl (AssertionError
              (set [''query.weight'', ''query.bias'', ''key.weight'', ''key.bias'', ''value.weight''])
              (set [''query.weight'', ''query.bias'', ''key.weight'', ''key.bias'', ''value.weight'',
               ''value.bias'']))
   \<and> first_failure (replace_one example_mismatched_lib example_mismatched_wrapper)
         (attention_modules example_mismatched_model) =
       Some (AssertionError
              (set [''query.weight'', ''query.bias'', ''key.weight'', ''key.bias'', ''value.weight''])
              (set [''query.weight'', ''query.bias'', ''key.weight'', ''key.bias'', ''value.weight'',
               ''value.bias'']))
   \<and> replace_multihead_attention_recursion example_mismatched_lib example_mismatched_wrapper
         example_mismatched_model =
       Inl (AssertionError
              (set [''query.weight'', ''query.bias'', ''key.weight'', ''key.bias'', ''value.weight''])
              (set [''query.weight'', ''query.bias'', ''key.weight'', ''key.bias'', ''value.weight'',
               ''value.bias'']))
   \<and> replace_multihead_attention example_mismatched_lib example_mismatched_wrapper =
       Inl (AssertionError
              (set [''query.weight'', ''query.bias'', ''key.weight'', ''key.bias'', ''value.weight''])
              (set [''query.weight'', ''query.bias'', ''key.weight'', ''key.bias'', ''value.weight'',
               ''value.bias'']))
   \<and> LoraWrapperRobertaHelper_init example_mismatched_lib None (Some 1) None None None =
       (Inl (AssertionError
              (set [''query.weight'', ''query.bias'', ''key.weight'', ''key.bias'', ''value.weight''])
              (set [''query.weight'', ''query.bias'', ''key.weight'', ''key.bias'', ''value.weight'',
               ''value.bias''])), None)
   \<and> replace_multihead_attention_recursion example_lib example_wrapper example_model =
       Inr (example_wrapper\<lparr>nr_replaced_modules := 1\<rparr>, example_adapted_model)
   \<and> list_all (\<lambda>sub. case replace_one example_lib example_wrapper sub of
                         Inl e \<Rightarrow> False
                       | Inr new \<Rightarrow> set (map fst (state_dict sub)) =
                           set (filter (\<lambda>k. \<not> startswith k ''lora_'') (map fst (state_dict new))))
               (attention_modules example_model)"
proof -
  let ?e = "AssertionError (set (map fst (state_dict example_mismatched)))
      (set (filter (\<lambda>k. \<not> startswith k ''lora_'') (map fst (state_dict (module_of example_lora)))))"
  let ?lib = example_mismatched_lib
  let ?self = example_mismatched_wrapper
  let ?inner = "Module OtherModule [] [(''self'', example_mismatched)]"
  note t1 = integrity_check[THEN conjunct2]
  note t2 = t1[THEN conjunct2]
  note t3 = t2[THEN conjunct2]
  note t4 = t3[THEN conjunct2]
  note t5 = t4[THEN conjunct2]
  note t6 = t5[THEN conjunct2]
  note t7 = t6[THEN conjunct2]
  note t8 = t7[THEN conjunct2]
  note at_made = integrity_check[THEN conjunct1, rule_format]
  note at_differ = t1[THEN conjunct1, rule_format]
  note at_child = t2[THEN conjunct1, rule_format]
  note at_below = t3[THEN conjunct1, rule_format]
  note at_loop = t4[THEN conjunct1, rule_format]
  note at_method = t5[THEN conjunct1, rule_format]
  note at_init = t6[THEN conjunct1, rule_format]
  note at_first = t7[THEN conjunct1]
  note at_done = t8[THEN conjunct2, rule_format]
  have a: "set (map fst (state_dict example_attention)) =
       set (filter (\<lambda>k. \<not> startswith k ''lora_'') (map fst (state_dict (module_of example_lora))))"
    using example_replace_ok by (rule at_made)
  have b: "replace_one example_lib example_wrapper example_mismatched = Inl ?e"
    using example_replace_init example_load example_keys_differ
    by (intro at_differ conjI)
  have c: "replace_children example_lib example_wrapper [(''self'', example_mismatched)] = Inl ?e"
    using example_mismatched_instance b example_replace_counter
    by (intro at_child conjI) simp_all
  have b': "replace_one ?lib ?self example_mismatched = Inl ?e"
    using b by (simp only: example_mismatched_same)
  have "replace_one ?lib (?self\<lparr>nr_replaced_modules := nr_replaced_modules ?self + 1\<rparr>)
          example_mismatched = Inl ?e"
    using b' by (simp only: replace_one_counter_Inl)
  then have c': "replace_children ?lib ?self [(''self'', example_mismatched)] = Inl ?e"
    using example_mismatched_instance by (intro at_child conjI)
  have d: "replace_multihead_attention_recursion ?lib ?self ?inner = Inl ?e"
    using c' by (rule at_loop)
  have "\<not> isinstance_RobertaSelfAttention (cls ?inner)"
    by code_simp
  then have e: "replace_children ?lib ?self [(''attention'', ?inner)] = Inl ?e"
    using d by (intro at_below conjI)
  have f: "first_failure (replace_one ?lib ?self) (attention_modules example_mismatched_model) =
             Some ?e"
    unfolding example_mismatched_modules using b' by (simp add: raised_simps)
  have g: "replace_multihead_attention_recursion ?lib ?self example_mismatched_model = Inl ?e"
    using f by (simp only: at_first)
  have h: "replace_multihead_attention ?lib ?self = Inl ?e"
    using g by (intro at_method) (simp only: example_mismatched_attributes)
  have i: "LoraWrapperRobertaHelper_init ?lib None (Some 1) None None None = (Inl ?e, None)"
    using example_mismatched_loaded h[unfolded example_mismatched_attributes(1)[symmetric]]
    by (intro at_init conjI)
  have j: "list_all (\<lambda>sub. case replace_one example_lib example_wrapper sub of
                         Inl e \<Rightarrow> False
                       | Inr new \<Rightarrow> set (map fst (state_dict sub)) =
                           set (filter (\<lambda>k. \<not> startswith k ''lora_'') (map fst (state_dict new))))
               (attention_modules example_model)"
    using example_recursion by (rule at_done)
  show ?thesis
    using example_replace_ok a example_load example_keys_differ example_mismatched_instance b c
      e f g h i example_recursion j
    unfolding example_keys_old example_keys_new by (intro conjI)
qed

section \<open>The default arguments\<close>

lemma init_result:
  assumes "snd (LoraWrapperRobertaHelper_init lib model_id rank biases embedding layer_norms) = Some w"
  shows "lora_rank w = arg_or 8 rank" "train_biases w = arg_or True biases"
    "train_embeddings w = arg_or False embedding" "train_layer_norms w = arg_or True layer_norms"
    "map (\<lambda>(n, p). (n, requires_grad p)) (named_parameters (model w)) =
     map (\<lambda>(n, p). (n, trainable_name w n)) (named_parameters (model w))"
proof -
  obtain m config self where
    r: "replace_multihead_attention lib
          \<lparr>model = m, model_config = config, lora_rank = arg_or 8 rank,
           train_biases = arg_or True biases, train_embeddings = arg_or False embedding,
           train_layer_norms = arg_or True layer_norms, nr_replaced_modules = 0\<rparr> = Inr self"
    and w: "w = snd (freeze_parameters_except_lora_and_bias self)"
    using assms
    by (auto simp: LoraWrapperRobertaHelper_init_def split: sum.splits prod.splits)
  note f = replace_multihead_attention_result[OF r]
  have self: "lora_rank self = arg_or 8 rank" "train_biases self = arg_or True biases"
    "train_embeddings self = arg_or False embedding"
    "train_layer_norms self = arg_or True layer_norms"
    using f by (metis wrapper.select_convs wrapper.surjective wrapper.update_convs)+
  show "lora_rank w = arg_or 8 rank" "train_biases w = arg_or True biases"
    "train_embeddings w = arg_or False embedding" "train_layer_norms w = arg_or True layer_norms"
    using self by (simp_all add: w freeze_state)
  have t: "trainable_name w = trainable_name self"
    by (simp add: w freeze_state trainable_name_def fun_eq_iff)
  show "map (\<lambda>(n, p). (n, requires_grad p)) (named_parameters (model w)) =
     map (\<lambda>(n, p). (n, trainable_name w n)) (named_parameters (model w))"
    unfolding t
    by (simp add: w freeze_state named_parameters_def named_parameters_map_named comp_def
        case_prod_unfold)
qed

text \<open>
  Claim C10, as amended. A construction without arguments is the construction with the model
  identifier \<^verbatim>\<open>roberta-base\<close>, rank 8, biases on, embeddings off and layer norms on. The
  wrapper that it leaves holds these values, and each of its parameters is trainable exactly
  if its name contains \<^verbatim>\<open>lora_\<close>, \<^verbatim>\<open>finetune_head_\<close>, \<^verbatim>\<open>bias\<close> or \<^verbatim>\<open>LayerNorm\<close>:
  every bias and every layer norm parameter is trainable, and a parameter with
  \<^verbatim>\<open>embeddings\<close> in its name is frozen unless its name contains one of the four.
\<close>

theorem default_arguments:
  "LoraWrapperRobertaHelper_init lib None None None None None =
     LoraWrapperRobertaHelper_init lib (Some ''roberta-base'') (Some 8) (Some True) (Some False)
       (Some True)
   \<and> (\<forall>w. snd (LoraWrapperRobertaHelper_init lib None None None None None) = Some w \<longrightarrow>
          lora_rank w = 8 \<and> train_biases w \<and> \<not> train_embeddings w \<and> train_layer_norms w
          \<and> map (\<lambda>(n, p). (n, requires_grad p)) (named_parameters (model w)) =
            map (\<lambda>(n, p). (n, str_in ''lora_'' n \<or> str_in ''finetune_head_'' n
                                \<or> str_in ''bias'' n \<or> str_in ''LayerNorm'' n))
                (named_parameters (model w)))"
proof (intro conjI allI impI)
  show "LoraWrapperRobertaHelper_init lib None None None None None =
     LoraWrapperRobertaHelper_init lib (Some ''roberta-base'') (Some 8) (Some True) (Some False)
       (Some True)"
    by (simp add: LoraWrapperRobertaHelper_init_def arg_or_def cong: sum.case_cong prod.case_cong)
next
  fix w assume a: "snd (LoraWrapperRobertaHelper_init lib None None None None None) = Some w"
  note r = init_result[OF a]
  show "lora_rank w = 8" "train_biases w" "\<not> train_embeddings w" "train_layer_norms w"
    using r(1-4) by (simp_all add: arg_or_def)
  then show "map (\<lambda>(n, p). (n, requires_grad p)) (named_parameters (model w)) =
            map (\<lambda>(n, p). (n, str_in ''lora_'' n \<or> str_in ''finetune_head_'' n
                                \<or> str_in ''bias'' n \<or> str_in ''LayerNorm'' n))
                (named_parameters (model w))"
    using r(5) by (simp add: trainable_name_def)
qed

lemma example_constructed:
  "snd (LoraWrapperRobertaHelper_init example_lib None None None None None) \<noteq> None"
  by code_simp

theorem default_arguments_witness:
  "snd (LoraWrapperRobertaHelper_init example_lib None None None None None) \<noteq> None
   \<and> map_option lora_rank (snd (LoraWrapperRobertaHelper_init example_lib None None None None None))
       = Some 8
   \<and> map_option train_biases
        (snd (LoraWrapperRobertaHelper_init example_lib None None None None None)) = Some True
   \<and> map_option train_embeddings
        (snd (LoraWrapperRobertaHelper_init example_lib None None None None None)) = Some False
   \<and> map_option train_layer_norms
        (snd (LoraWrapperRobertaHelper_init example_lib None None None None None)) = Some True"
proof -
  obtain w where w: "snd (LoraWrapperRobertaHelper_init example_lib None None None None None) = Some w"
    using example_constructed by blast
  show ?thesis
    using default_arguments[of example_lib, THEN conjunct2, rule_format, OF w] w by simp
qed

text \<open>
  The claim as it was stated, that embedding parameters are frozen by default, fails for the
  layer norm of the embeddings: constructed without arguments on the small model, the
  parameters \<^verbatim>\<open>embeddings.LayerNorm.weight\<close> and \<^verbatim>\<open>embeddings.LayerNorm.bias\<close> are
  trainable.
\<close>

theorem default_embeddings_counterexample:
  "str_in ''embeddings'' ''embeddings.LayerNorm.weight''
   \<and> map_option (\<lambda>w. map (\<lambda>(n, p). (n, requires_grad p)) (take 3 (named_parameters (model w))))
        (snd (LoraWrapperRobertaHelper_init example_lib None None None None None)) =
      Some [(''embeddings.word_embeddings.weight'', False),
            (''embeddings.LayerNorm.weight'', True),
            (''embeddings.LayerNorm.bias'', True)]"
  by code_simp

section \<open>Saving and loading\<close>

text \<open>
  Claim C8. The class has no operation that saves, and the two steps of the round trip that
  the source does contain cannot be taken: the construction of a wrapper from the stored
  identifier and rank ends in \<open>UnboundLocalError\<close>, and so does the only function that holds
  the loading statements, here on the small model with its adapted attention module.
\<close>

theorem round_trip_steps_raise:
  "fst (LoraWrapperRobertaHelper_init example_lib (Some ''roberta-base'') (Some 8) None None None) =
     Inl UnboundLocalError
   \<and> fst (freeze_parameters_except_lora_and_bias
            (example_wrapper\<lparr>model := example_adapted_model, lora_rank := 8\<rparr>)) =
     Inl UnboundLocalError"
  by code_simp

end
